theory Spec2Isabelle
  imports Complex_Main "HOL-Library.Multiset"
begin

section \<open>Python values and exceptions\<close>

text \<open>
  The exceptions that the modelled code can raise. \<open>SystemExit\<close> carries the exit code of
  \<^verbatim>\<open>sys.exit\<close>; \<open>JSONDecodeError\<close> is what \<^verbatim>\<open>response.json()\<close> raises on a body that
  is not JSON.
\<close>

datatype py_error = ValueError | KeyError | TypeError | JSONDecodeError | SystemExit int

text \<open>
  A value kept in the rate-limit dictionary: the class starts with the integers 150, 150, 0
  and \<^verbatim>\<open>update_rate_limit\<close> overwrites them with header values, which are strings.
\<close>

datatype pyval = PyInt int | PyStr string

definition is_digit :: "char \<Rightarrow> bool" where
  "is_digit c = (48 \<le> (of_char c :: nat) \<and> (of_char c :: nat) \<le> 57)"

definition digit_val :: "char \<Rightarrow> nat" where
  "digit_val c = (of_char c :: nat) - 48"

definition digits_val :: "string \<Rightarrow> nat" where
  "digits_val s = foldl (\<lambda>a c. 10 * a + digit_val c) 0 s"

section \<open>DataFormatting.py: durations\<close>

subsection \<open>\<^verbatim>\<open>datetime.strptime(s, '%H:%M:%S')\<close>\<close>

text \<open>
  \<^verbatim>\<open>str.split\<close> on one separator character; the result is never empty.
\<close>

fun split_on :: "char \<Rightarrow> string \<Rightarrow> string list" where
  "split_on d [] = [[]]"
| "split_on d (c # cs) =
     (if c = d then [] # split_on d cs
      else (case split_on d cs of
              [] \<Rightarrow> [[c]]
            | w # ws \<Rightarrow> (c # w) # ws))"

text \<open>
  One numeric field of the format: one or two decimal digits (the directives \<^verbatim>\<open>%H\<close>,
  \<^verbatim>\<open>%M\<close> and \<^verbatim>\<open>%S\<close> accept a single digit as well as a zero-padded pair).
\<close>

definition time_field :: "string \<Rightarrow> nat option" where
  "time_field s =
     (if (length s = 1 \<or> length s = 2) \<and> list_all is_digit s then Some (digits_val s) else None)"

text \<open>
  The parse used by \<^verbatim>\<open>calculate_duration\<close>, whose callers never pass another
  \<^verbatim>\<open>time_format\<close> than the default \<^verbatim>\<open>'%H:%M:%S'\<close>. The date of the parsed value is
  always 1900-01-01, so the datetime is represented by its number of seconds since that
  midnight. Hours beyond 23 and minutes beyond 59 do not match the format; seconds 60 and
  61 match it but are refused by the \<^verbatim>\<open>datetime\<close> constructor; every failure is a
  \<^verbatim>\<open>ValueError\<close>. Strings are ASCII.
\<close>

definition strptime_HMS :: "string \<Rightarrow> py_error + int" where
  "strptime_HMS s =
     (case split_on CHR '':'' s of
        [h, m, sec] \<Rightarrow>
          (case (time_field h, time_field m, time_field sec) of
             (Some H, Some M, Some S) \<Rightarrow>
               (if H \<le> 23 \<and> M \<le> 59 \<and> S \<le> 59
                then Inr (int (H * 3600 + M * 60 + S))
                else Inl ValueError)
           | _ \<Rightarrow> Inl ValueError)
      | _ \<Rightarrow> Inl ValueError)"

subsection \<open>\<^verbatim>\<open>calculate_duration\<close>\<close>

text \<open>
  \<^verbatim>\<open>
  if start_time == 'N/A' or end_time == 'N/A':
      return 0
  start = datetime.strptime(start_time, time_format)
  end = datetime.strptime(end_time, time_format)
  if end < start:
      end += timedelta(days=1)
  duration = (end - start).total_seconds()
  return duration
  \<close>
  The result is a whole number of seconds (Python returns it as a float, or as the
  integer 0 on the sentinel path).
\<close>

definition calculate_duration :: "string \<Rightarrow> string \<Rightarrow> py_error + int" where
  "calculate_duration start_time end_time =
     (if start_time = ''N/A'' \<or> end_time = ''N/A'' then Inr 0
      else (case strptime_HMS start_time of
              Inl e \<Rightarrow> Inl e
            | Inr start \<Rightarrow>
                (case strptime_HMS end_time of
                   Inl e \<Rightarrow> Inl e
                 | Inr end_t \<Rightarrow>
                     Inr ((if end_t < start then end_t + 86400 else end_t) - start))))"

subsection \<open>\<^verbatim>\<open>format_duration\<close>\<close>

text \<open>
  The three numbers that \<^verbatim>\<open>format_duration\<close> puts into its f-string
  \<^verbatim>\<open>"{hours} hours {minutes} minutes {seconds} seconds"\<close>; the rendering of the numbers
  as text is not modelled.
\<close>

record duration_text =
  hours :: int
  minutes :: int
  seconds :: int

definition format_duration :: "int \<Rightarrow> duration_text" where
  "format_duration total_seconds =
     \<lparr> hours = total_seconds div 3600,
       minutes = (total_seconds mod 3600) div 60,
       seconds = total_seconds mod 60 \<rparr>"

subsection \<open>\<^verbatim>\<open>calculate_period_durations\<close>\<close>

text \<open>One intraday sample, \<^verbatim>\<open>{'time': ..., 'value': ...}\<close>.\<close>

record sample =
  time :: string
  bpm_value :: int

datatype period_type = active | resting

record scan_state =
  active_duration_total :: int
  resting_duration_total :: int
  current_period_start :: "string option"
  current_period_type :: "period_type option"

definition classify :: "sample \<Rightarrow> period_type" where
  "classify entry = (if bpm_value entry > 110 then active else resting)"

text \<open>
  Closing a run, as the source does at lines 142--146 and again at lines 151--155: the
  duration from the run's start to \<open>end_time\<close> goes to the total of the run's type.
\<close>

definition close_period :: "string \<Rightarrow> string \<Rightarrow> scan_state \<Rightarrow> py_error + scan_state" where
  "close_period start end_time st =
     (case calculate_duration start end_time of
        Inl e \<Rightarrow> Inl e
      | Inr duration \<Rightarrow>
          Inr (if current_period_type st = Some active
               then st\<lparr>active_duration_total := active_duration_total st + duration\<rparr>
               else st\<lparr>resting_duration_total := resting_duration_total st + duration\<rparr>))"

text \<open>
  The \<^verbatim>\<open>for i, entry in enumerate(data)\<close> loop. \<open>prev\<close> is \<^verbatim>\<open>data[i-1]\<close>: the sample
  before \<open>entry\<close>, and at \<open>i = 0\<close> the last sample of the list (Python's
  \<^verbatim>\<open>data[-1]\<close>), which is never read because no run is open then.
\<close>

fun period_loop :: "sample \<Rightarrow> sample list \<Rightarrow> scan_state \<Rightarrow> py_error + scan_state" where
  "period_loop prev [] st = Inr st"
| "period_loop prev (entry # rest) st =
     (let current_type = classify entry in
      if current_period_type st \<noteq> Some current_type then
        (case (case current_period_start st of
                 None \<Rightarrow> Inr st
               | Some start \<Rightarrow> close_period start (time prev) st) of
           Inl e \<Rightarrow> Inl e
         | Inr st' \<Rightarrow>
             period_loop entry rest
               (st'\<lparr>current_period_start := Some (time entry),
                    current_period_type := Some current_type\<rparr>))
      else period_loop entry rest st)"

definition initial_scan :: scan_state where
  "initial_scan =
     \<lparr> active_duration_total = 0, resting_duration_total = 0,
       current_period_start = None, current_period_type = None \<rparr>"

text \<open>
  The body of \<^verbatim>\<open>calculate_period_durations\<close> up to its \<^verbatim>\<open>return\<close>: the pair
  (active total, resting total) in seconds. On an empty list the loop does not run and the
  final \<^verbatim>\<open>if\<close> is false.
\<close>

definition period_totals :: "sample list \<Rightarrow> py_error + int \<times> int" where
  "period_totals data =
     (case data of
        [] \<Rightarrow> Inr (0, 0)
      | _ # _ \<Rightarrow>
          (case period_loop (last data) data initial_scan of
             Inl e \<Rightarrow> Inl e
           | Inr st \<Rightarrow>
               (case (case current_period_start st of
                        None \<Rightarrow> Inr st
                      | Some start \<Rightarrow> close_period start (time (last data)) st) of
                  Inl e \<Rightarrow> Inl e
                | Inr st' \<Rightarrow> Inr (active_duration_total st', resting_duration_total st'))))"

definition calculate_period_durations ::
  "sample list \<Rightarrow> py_error + duration_text \<times> duration_text" where
  "calculate_period_durations data =
     (case period_totals data of
        Inl e \<Rightarrow> Inl e
      | Inr (a, r) \<Rightarrow> Inr (format_duration a, format_duration r))"

text \<open>
  A well-formed clock time \<^verbatim>\<open>"HH:MM:SS"\<close>: two digits, colon, two digits, colon, two
  digits, with hour at most 23 and minute and second at most 59. This is the shape of the
  sample times of the intraday dataset; it is used to state properties, not by the code.
\<close>

definition valid_hms :: "string \<Rightarrow> bool" where
  "valid_hms s =
     (case s of
        [h1, h2, c1, m1, m2, c2, s1, s2] \<Rightarrow>
          is_digit h1 \<and> is_digit h2 \<and> c1 = CHR '':'' \<and> is_digit m1 \<and> is_digit m2 \<and>
          c2 = CHR '':'' \<and> is_digit s1 \<and> is_digit s2 \<and>
          digits_val [h1, h2] \<le> 23 \<and> digits_val [m1, m2] \<le> 59 \<and> digits_val [s1, s2] \<le> 59
      | _ \<Rightarrow> False)"

text \<open>
  For stating what the segmentation adds up to: the seconds since midnight of a clock time
  (0 if it does not parse), the sum of the two totals of a scan state, and the total of the
  gaps of a sample sequence, a gap being the time from a sample to the next one when the
  two are classified differently (that is, from the last sample of a run to the first
  sample of the next run).
\<close>

definition seconds_of :: "string \<Rightarrow> int" where
  "seconds_of s = (case strptime_HMS s of Inl e \<Rightarrow> 0 | Inr t \<Rightarrow> t)"

fun gap_total :: "sample list \<Rightarrow> int" where
  "gap_total (a # b # rest) =
     (if classify a \<noteq> classify b then seconds_of (time b) - seconds_of (time a) else 0) +
     gap_total (b # rest)"
| "gap_total _ = 0"

definition total_of :: "scan_state \<Rightarrow> int" where
  "total_of st = active_duration_total st + resting_duration_total st"

section \<open>RateLimiter.py\<close>

text \<open>
  The class attribute \<^verbatim>\<open>RateLimitManager.rate_limit\<close>: one dictionary with the keys
  \<^verbatim>\<open>'limit'\<close>, \<^verbatim>\<open>'remaining'\<close> and \<^verbatim>\<open>'reset'\<close>, shared by every instance.
\<close>

record rate_limit_dict =
  limit :: pyval
  remaining :: pyval
  reset :: pyval

definition initial_rate_limit :: rate_limit_dict where
  "initial_rate_limit = \<lparr> limit = PyInt 150, remaining = PyInt 150, reset = PyInt 0 \<rparr>"

text \<open>
  Response headers: a case-insensitive dictionary from header names to strings, represented
  by a map whose keys are the lower-case names.
\<close>

type_synonym header_map = "string \<rightharpoonup> string"

text \<open>\<^verbatim>\<open>headers.get(name, default)\<close> for a value kept in the rate-limit dictionary.\<close>

definition header_get :: "header_map \<Rightarrow> string \<Rightarrow> pyval \<Rightarrow> pyval" where
  "header_get hs name dflt = (case hs name of None \<Rightarrow> dflt | Some v \<Rightarrow> PyStr v)"

text \<open>
  \<^verbatim>\<open>
  cls.rate_limit['limit'] = headers.get('fitbit-rate-limit-limit', cls.rate_limit['limit'])
  cls.rate_limit['remaining'] = headers.get('fitbit-rate-limit-remaining', cls.rate_limit['remaining'])
  cls.rate_limit['reset'] = headers.get('fitbit-rate-limit-reset', cls.rate_limit['reset'])
  \<close>
\<close>

definition update_rate_limit :: "header_map \<Rightarrow> rate_limit_dict \<Rightarrow> rate_limit_dict" where
  "update_rate_limit hs rl =
     \<lparr> limit = header_get hs ''fitbit-rate-limit-limit'' (limit rl),
       remaining = header_get hs ''fitbit-rate-limit-remaining'' (remaining rl),
       reset = header_get hs ''fitbit-rate-limit-reset'' (reset rl) \<rparr>"

subsection \<open>Python's \<^verbatim>\<open>int()\<close>\<close>

definition is_space :: "char \<Rightarrow> bool" where
  "is_space c = ((of_char c :: nat) = 32 \<or> (9 \<le> (of_char c :: nat) \<and> (of_char c :: nat) \<le> 13))"

definition strip :: "string \<Rightarrow> string" where
  "strip s = rev (dropWhile is_space (rev (dropWhile is_space s)))"

fun no_double_underscore :: "string \<Rightarrow> bool" where
  "no_double_underscore (a # b # cs) =
     (\<not> (a = CHR ''_'' \<and> b = CHR ''_'') \<and> no_double_underscore (b # cs))"
| "no_double_underscore _ = True"

text \<open>
  A decimal literal as \<^verbatim>\<open>int\<close> accepts it after the sign: digits, with single underscores
  allowed between digits.
\<close>

definition decimal_literal :: "string \<Rightarrow> bool" where
  "decimal_literal s =
     (s \<noteq> [] \<and> is_digit (hd s) \<and> is_digit (last s) \<and>
      list_all (\<lambda>c. is_digit c \<or> c = CHR ''_'') s \<and> no_double_underscore s)"

definition int_of_string :: "string \<Rightarrow> py_error + int" where
  "int_of_string s =
     (let t = strip s;
          negative = (t \<noteq> [] \<and> hd t = CHR ''-'');
          signed = (t \<noteq> [] \<and> (hd t = CHR ''-'' \<or> hd t = CHR ''+''));
          literal = (if signed then tl t else t)
      in if decimal_literal literal
         then Inr ((if negative then - 1 else 1) * int (digits_val (filter is_digit literal)))
         else Inl ValueError)"

definition py_int :: "pyval \<Rightarrow> py_error + int" where
  "py_int v = (case v of PyInt n \<Rightarrow> Inr n | PyStr s \<Rightarrow> int_of_string s)"

section \<open>DataRetrieval.py\<close>

datatype resource = steps | heart | calories | sleep | spo2 | rate | devices

text \<open>
  A parsed JSON document. \<open>JNull\<close> is Python's \<^verbatim>\<open>None\<close>; a number is kept as a rational;
  an object is an association list with distinct keys.
\<close>

datatype json =
    JNull
  | JBool bool
  | JNum rat
  | JStr string
  | JList "json list"
  | JDict "(string \<times> json) list"

text \<open>Python's truth value of a parsed document, as in \<^verbatim>\<open>if daily_data:\<close>.\<close>

fun truthy :: "json \<Rightarrow> bool" where
  "truthy JNull = False"
| "truthy (JBool b) = b"
| "truthy (JNum x) = (x \<noteq> 0)"
| "truthy (JStr s) = (s \<noteq> [])"
| "truthy (JList xs) = (xs \<noteq> [])"
| "truthy (JDict kvs) = (kvs \<noteq> [])"

text \<open>
  What the retriever reads of a response: the status code, the headers, and the body as
  \<^verbatim>\<open>response.json()\<close> parses it (\<open>None\<close> when the body is not JSON).
\<close>

record response =
  status_code :: int
  headers :: header_map
  body :: "json option"

text \<open>
  The state that \<^verbatim>\<open>get_data\<close> reads and writes: the shared rate-limit dictionary, the
  three counters of the instance, and, to observe the calls to the outside, the number of
  \<^verbatim>\<open>requests.get\<close> calls made so far and the arguments of the \<^verbatim>\<open>time.sleep\<close> calls
  in order (seconds; Python's floats are represented by exact rationals).
\<close>

record retriever =
  rate_limit :: rate_limit_dict
  total_requests :: int
  successful_requests :: "resource \<Rightarrow> int"
  failed_requests :: "resource \<Rightarrow> int"
  requests_sent :: nat
  slept :: "rat list"

text \<open>
  The server: the response to the \<open>k\<close>-th request of the run. The endpoint string is not
  modelled; whatever the server makes of it is part of this function.
\<close>

type_synonym server = "nat \<Rightarrow> response"

text \<open>\<^verbatim>\<open>time.sleep\<close>, which refuses a negative argument.\<close>

definition time_sleep :: "rat \<Rightarrow> retriever \<Rightarrow> py_error + retriever" where
  "time_sleep secs st = (if secs < 0 then Inl ValueError else Inr (st\<lparr>slept := slept st @ [secs]\<rparr>))"

subsection \<open>\<^verbatim>\<open>log_error_details\<close>\<close>

fun starts_with :: "string \<Rightarrow> string \<Rightarrow> bool" where
  "starts_with [] s = True"
| "starts_with (p # ps) [] = False"
| "starts_with (p # ps) (c # cs) = (p = c \<and> starts_with ps cs)"

fun contains :: "string \<Rightarrow> string \<Rightarrow> bool" where
  "contains p [] = (p = [])"
| "contains p (c # cs) = (starts_with p (c # cs) \<or> contains p cs)"

fun join :: "string \<Rightarrow> string list \<Rightarrow> string" where
  "join sep [] = []"
| "join sep [x] = x"
| "join sep (x # y # ys) = x @ sep @ join sep (y # ys)"

text \<open>\<^verbatim>\<open>error['message']\<close> for one element of the \<^verbatim>\<open>errors\<close> value.\<close>

fun message_of :: "json \<Rightarrow> py_error + json" where
  "message_of (JDict kvs) =
     (case map_of kvs ''message'' of None \<Rightarrow> Inl KeyError | Some m \<Rightarrow> Inr m)"
| "message_of _ = Inl TypeError"

text \<open>The list comprehension \<^verbatim>\<open>[error['message'] for error in ...]\<close>: the first failure wins.\<close>

fun messages_of :: "json list \<Rightarrow> py_error + json list" where
  "messages_of [] = Inr []"
| "messages_of (e # es) =
     (case message_of e of
        Inl err \<Rightarrow> Inl err
      | Inr m \<Rightarrow> (case messages_of es of Inl err \<Rightarrow> Inl err | Inr ms \<Rightarrow> Inr (m # ms)))"

fun str_of :: "json \<Rightarrow> string option" where
  "str_of (JStr s) = Some s"
| "str_of _ = None"

text \<open>\<^verbatim>\<open>', '.join(...)\<close>, which raises \<^verbatim>\<open>TypeError\<close> on an item that is not a string.\<close>

definition join_messages :: "json list \<Rightarrow> py_error + string" where
  "join_messages ms =
     (if list_all (\<lambda>m. str_of m \<noteq> None) ms
      then Inr (join '', '' (map (\<lambda>m. the (str_of m)) ms))
      else Inl TypeError)"

text \<open>
  The value of \<^verbatim>\<open>error_details['errors']\<close> is iterated: a list gives its elements, an
  object its keys and a string its characters (all of them strings, which cannot be indexed
  by \<^verbatim>\<open>'message'\<close>), and anything else is not iterable.
\<close>

fun errors_message :: "json \<Rightarrow> py_error + string" where
  "errors_message (JList es) =
     (case messages_of es of Inl err \<Rightarrow> Inl err | Inr ms \<Rightarrow> join_messages ms)"
| "errors_message (JDict kvs) = (if kvs = [] then Inr [] else Inl TypeError)"
| "errors_message (JStr s) = (if s = [] then Inr [] else Inl TypeError)"
| "errors_message _ = Inl TypeError"

text \<open>
  \<^verbatim>\<open>
  error_message = "Unknown Error"
  try:
      error_details = response.json()
      if 'errors' in error_details:
          error_message = ', '.join([error['message'] for error in error_details['errors']])
  except ValueError:
      error_message = "Failed to parse JSON response"
  self.logger.error(...)
  \<close>
  The result is the message that is logged, or the exception that escapes: \<^verbatim>\<open>'errors' in\<close>
  is key membership on an object, element membership on a list and a substring test on a
  string, and is a \<^verbatim>\<open>TypeError\<close> on anything else; indexing a list or a string by
  \<^verbatim>\<open>'errors'\<close> is a \<^verbatim>\<open>TypeError\<close> too.
\<close>

fun log_error_details :: "json option \<Rightarrow> py_error + string" where
  "log_error_details None = Inr ''Failed to parse JSON response''"
| "log_error_details (Some (JDict kvs)) =
     (case map_of kvs ''errors'' of
        None \<Rightarrow> Inr ''Unknown Error''
      | Some errs \<Rightarrow> errors_message errs)"
| "log_error_details (Some (JList xs)) =
     (if JStr ''errors'' \<in> set xs then Inl TypeError else Inr ''Unknown Error'')"
| "log_error_details (Some (JStr s)) =
     (if contains ''errors'' s then Inl TypeError else Inr ''Unknown Error'')"
| "log_error_details (Some _) = Inl TypeError"

subsection \<open>\<^verbatim>\<open>get_data\<close>\<close>

text \<open>
  The \<^verbatim>\<open>while attempt < retries\<close> loop of \<^verbatim>\<open>get_data\<close>. Each round issues one request,
  updates the rate-limit dictionary from the response headers whatever the status, and
  then returns the parsed body (status 200), waits and retries (status 429), or logs, waits,
  counts a failure and retries (any other status). Leaving the loop returns \<^verbatim>\<open>None\<close>.
  An exception leaves the function with the state as it is at that point.
\<close>

function get_data_loop ::
  "server \<Rightarrow> resource \<Rightarrow> int \<Rightarrow> rat \<Rightarrow> nat \<Rightarrow> retriever \<Rightarrow> (py_error + json) \<times> retriever" where
  "get_data_loop net resource_type retries backoff_factor attempt st =
     (if int attempt < retries then
        (let resp = net (requests_sent st);
             st1 = st\<lparr>requests_sent := requests_sent st + 1,
                       rate_limit := update_rate_limit (headers resp) (rate_limit st)\<rparr>
         in if status_code resp = 200 then
              (let st2 = st1\<lparr>successful_requests :=
                               (successful_requests st1)
                                 (resource_type := successful_requests st1 resource_type + 1),
                             total_requests := total_requests st1 + 1\<rparr>
               in (case body resp of
                     None \<Rightarrow> (Inl JSONDecodeError, st2)
                   | Some j \<Rightarrow> (Inr j, st2)))
            else if status_code resp = 429 then
              (case py_int (reset (rate_limit st1)) of
                 Inl e \<Rightarrow> (Inl e, st1)
               | Inr reset_time \<Rightarrow>
                   (case (if reset_time > 0 then time_sleep (of_int reset_time + 1) st1
                          else time_sleep ((of_nat attempt + 1) * backoff_factor) st1) of
                      Inl e \<Rightarrow> (Inl e, st1)
                    | Inr st2 \<Rightarrow>
                        get_data_loop net resource_type retries backoff_factor (attempt + 1) st2))
            else
              (case log_error_details (body resp) of
                 Inl e \<Rightarrow> (Inl e, st1)
               | Inr msg \<Rightarrow>
                   (case time_sleep ((of_nat attempt + 1) * backoff_factor) st1 of
                      Inl e \<Rightarrow> (Inl e, st1)
                    | Inr st2 \<Rightarrow>
                        get_data_loop net resource_type retries backoff_factor (attempt + 1)
                          (st2\<lparr>failed_requests :=
                                  (failed_requests st2)
                                    (resource_type := failed_requests st2 resource_type + 1),
                                total_requests := total_requests st2 + 1\<rparr>))))
      else (Inr JNull, st))"
  by pat_completeness auto
termination
  by (relation "measure (\<lambda>(net, resource_type, retries, backoff_factor, attempt, st).
        nat (retries - int attempt))") auto

declare get_data_loop.simps [simp del]

definition get_data ::
  "server \<Rightarrow> resource \<Rightarrow> int \<Rightarrow> rat \<Rightarrow> retriever \<Rightarrow> (py_error + json) \<times> retriever" where
  "get_data net resource_type retries backoff_factor st =
     get_data_loop net resource_type retries backoff_factor 0 st"

subsection \<open>\<^verbatim>\<open>check_not_exceeded\<close>\<close>

text \<open>
  \<^verbatim>\<open>
  total_requests = len(resources) * num_days
  remaining_requests = int(super().rate_limit['remaining'])
  if total_requests > remaining_requests:
      self.logger.info(...)
      sys.exit(1)
  \<close>
\<close>

definition check_not_exceeded :: "resource list \<Rightarrow> int \<Rightarrow> retriever \<Rightarrow> py_error + unit" where
  "check_not_exceeded resources num_days st =
     (let total = int (length resources) * num_days in
      case py_int (remaining (rate_limit st)) of
        Inl e \<Rightarrow> Inl e
      | Inr remaining_requests \<Rightarrow>
          (if total > remaining_requests then Inl (SystemExit 1) else Inr ()))"

subsection \<open>\<^verbatim>\<open>datetime.strptime(s, '%Y-%m-%d')\<close>\<close>

definition year_field :: "string \<Rightarrow> nat option" where
  "year_field s =
     (if length s = 4 \<and> list_all is_digit s \<and> 1 \<le> digits_val s then Some (digits_val s)
      else None)"

definition month_field :: "string \<Rightarrow> nat option" where
  "month_field s =
     (if (length s = 1 \<or> length s = 2) \<and> list_all is_digit s \<and>
         1 \<le> digits_val s \<and> digits_val s \<le> 12
      then Some (digits_val s) else None)"

text \<open>The directive \<^verbatim>\<open>%d\<close> also accepts a space followed by one digit from 1 to 9.\<close>

definition day_field :: "string \<Rightarrow> nat option" where
  "day_field s =
     (if (length s = 1 \<or> length s = 2) \<and> list_all is_digit s \<and>
         1 \<le> digits_val s \<and> digits_val s \<le> 31
      then Some (digits_val s)
      else if length s = 2 \<and> hd s = CHR '' '' \<and> is_digit (last s) \<and> 1 \<le> digit_val (last s)
      then Some (digit_val (last s))
      else None)"

definition is_leap :: "nat \<Rightarrow> bool" where
  "is_leap y = (y mod 4 = 0 \<and> (y mod 100 \<noteq> 0 \<or> y mod 400 = 0))"

definition month_lengths :: "nat \<Rightarrow> nat list" where
  "month_lengths y = [31, if is_leap y then 29 else 28, 31, 30, 31, 30, 31, 31, 30, 31, 30, 31]"

text \<open>The day number of a date, as \<^verbatim>\<open>date.toordinal\<close> counts it (1 is 0001-01-01).\<close>

definition toordinal :: "nat \<Rightarrow> nat \<Rightarrow> nat \<Rightarrow> int" where
  "toordinal y m d =
     int ((y - 1) * 365 + (y - 1) div 4 + (y - 1) div 400 + sum_list (take (m - 1) (month_lengths y)) + d)
       - int ((y - 1) div 100)"

text \<open>
  A parsed date is represented by its day number; the difference of two parsed dates in
  days, \<^verbatim>\<open>(end - start).days\<close>, is the difference of the day numbers.
\<close>

definition strptime_Ymd :: "string \<Rightarrow> py_error + int" where
  "strptime_Ymd s =
     (case split_on CHR ''-'' s of
        [y, m, d] \<Rightarrow>
          (case (year_field y, month_field m, day_field d) of
             (Some Y, Some M, Some D) \<Rightarrow>
               (if D \<le> month_lengths Y ! (M - 1) then Inr (toordinal Y M D)
                else Inl ValueError)
           | _ \<Rightarrow> Inl ValueError)
      | _ \<Rightarrow> Inl ValueError)"

subsection \<open>\<^verbatim>\<open>get_all_data_for_date_ranges\<close>\<close>

text \<open>The dictionary that is returned: one list of daily payloads per resource, and the device.\<close>

record data_bundle =
  payloads :: "resource \<Rightarrow> json list"
  device_id :: string

text \<open>
  The inner loop \<^verbatim>\<open>for resource in resources\<close> for one date: fetch with the default
  \<^verbatim>\<open>retries=3\<close> and \<^verbatim>\<open>backoff_factor=1.5\<close>, and append a truthy payload.
\<close>

fun fetch_resources ::
  "server \<Rightarrow> resource list \<Rightarrow> data_bundle \<Rightarrow> retriever \<Rightarrow> (py_error + data_bundle) \<times> retriever" where
  "fetch_resources net [] data st = (Inr data, st)"
| "fetch_resources net (r # rs) data st =
     (case get_data net r 3 (3 / 2) st of
        (Inl e, st') \<Rightarrow> (Inl e, st')
      | (Inr daily_data, st') \<Rightarrow>
          fetch_resources net rs
            (if truthy daily_data
             then data\<lparr>payloads := (payloads data)(r := payloads data r @ [daily_data])\<rparr>
             else data) st')"

text \<open>The outer loop over the \<open>num_days\<close> dates of the range.\<close>

fun fetch_days ::
  "server \<Rightarrow> resource list \<Rightarrow> nat \<Rightarrow> data_bundle \<Rightarrow> retriever \<Rightarrow> (py_error + data_bundle) \<times> retriever" where
  "fetch_days net resources 0 data st = (Inr data, st)"
| "fetch_days net resources (Suc n) data st =
     (case fetch_resources net resources data st of
        (Inl e, st') \<Rightarrow> (Inl e, st')
      | (Inr data', st') \<Rightarrow> fetch_days net resources n data' st')"

definition all_resources :: "resource list" where
  "all_resources = [steps, heart, calories, sleep, spo2, rate]"

text \<open>
  \<^verbatim>\<open>
  start = datetime.strptime(start_date, '%Y-%m-%d')
  end = datetime.strptime(end_date, '%Y-%m-%d')
  num_days = (end - start).days + 1
  self.check_not_exceeded(resources, num_days)
  for single_date in (start + timedelta(n) for n in range(num_days)):
      ...
  \<close>
  \<^verbatim>\<open>range(num_days)\<close> is empty when \<open>num_days\<close> is not positive.
\<close>

definition get_all_data_for_date_ranges ::
  "server \<Rightarrow> string \<Rightarrow> string \<Rightarrow> string \<Rightarrow> retriever \<Rightarrow> (py_error + data_bundle) \<times> retriever" where
  "get_all_data_for_date_ranges net dev start_date end_date st =
     (let resources = all_resources;
          data = \<lparr> payloads = (\<lambda>r. []), device_id = dev \<rparr>
      in case strptime_Ymd start_date of
           Inl e \<Rightarrow> (Inl e, st)
         | Inr start \<Rightarrow>
             (case strptime_Ymd end_date of
                Inl e \<Rightarrow> (Inl e, st)
              | Inr end_d \<Rightarrow>
                  (let num_days = (end_d - start) + 1 in
                   case check_not_exceeded resources num_days st of
                     Inl e \<Rightarrow> (Inl e, st)
                   | Inr _ \<Rightarrow> fetch_days net resources (nat num_days) data st)))"

subsection \<open>\<^verbatim>\<open>__init__\<close> and example servers\<close>

text \<open>
  The state after \<^verbatim>\<open>FitbitDataRetriever.__init__\<close> in a fresh process: the class-level
  dictionary at its initial values and all counters at 0.
\<close>

definition initial_retriever :: retriever where
  "initial_retriever =
     \<lparr> rate_limit = initial_rate_limit, total_requests = 0,
       successful_requests = (\<lambda>r. 0), failed_requests = (\<lambda>r. 0),
       requests_sent = 0, slept = [] \<rparr>"

text \<open>The same state once an earlier response has reported \<open>r\<close> remaining requests.\<close>

definition retriever_with_remaining :: "string \<Rightarrow> retriever" where
  "retriever_with_remaining r =
     initial_retriever\<lparr>rate_limit :=
       \<lparr> limit = PyStr ''150'', remaining = PyStr r, reset = PyStr ''3000'' \<rparr>\<rparr>"

text \<open>
  Servers used as concrete inputs: one that answers every request with status 500 and a body
  that is not JSON, and one that answers every request with status 429 and the given value
  of the reset header.
\<close>

definition server_500 :: server where
  "server_500 k = \<lparr> status_code = 500, headers = Map.empty, body = None \<rparr>"

definition server_429_reset :: "string \<Rightarrow> server" where
  "server_429_reset r k =
     \<lparr> status_code = 429, headers = [''fitbit-rate-limit-reset'' \<mapsto> r], body = None \<rparr>"

section \<open>DataFormatting.py: intraday average rate\<close>

subsection \<open>Strings and numbers\<close>

text \<open>Python's order on strings: lexicographic by character code.\<close>

fun str_less :: "string \<Rightarrow> string \<Rightarrow> bool" where
  "str_less [] [] = False"
| "str_less [] (y # ys) = True"
| "str_less (x # xs) [] = False"
| "str_less (x # xs) (y # ys) =
     ((of_char x :: nat) < of_char y \<or> ((of_char x :: nat) = of_char y \<and> str_less xs ys))"

definition str_le :: "string \<Rightarrow> string \<Rightarrow> bool" where
  "str_le a b = (a = b \<or> str_less a b)"

text \<open>\<^verbatim>\<open>min\<close> and \<^verbatim>\<open>max\<close> of a non-empty sequence of strings.\<close>

definition min_str :: "string list \<Rightarrow> string" where
  "min_str xs = foldl (\<lambda>a b. if str_less b a then b else a) (hd xs) (tl xs)"

definition max_str :: "string list \<Rightarrow> string" where
  "max_str xs = foldl (\<lambda>a b. if str_less a b then b else a) (hd xs) (tl xs)"

text \<open>
  Python's \<^verbatim>\<open>round\<close>, to the nearest value with ties going to the even neighbour:
  \<open>py_round_int\<close> is \<^verbatim>\<open>round(x)\<close> and \<open>py_round x n\<close> is \<^verbatim>\<open>round(x, n)\<close>. The means are
  floats in Python and exact rationals here.
\<close>

definition py_round_int :: "rat \<Rightarrow> int" where
  "py_round_int x =
     (let f = \<lfloor>x\<rfloor>; d = x - of_int f
      in if d < 1 / 2 then f else if d > 1 / 2 then f + 1 else if even f then f else f + 1)"

definition py_round :: "rat \<Rightarrow> nat \<Rightarrow> rat" where
  "py_round x n = of_int (py_round_int (x * 10 ^ n)) / 10 ^ n"

text \<open>The decimal text of an integer, as an f-string renders it.\<close>

fun show_nat :: "nat \<Rightarrow> string" where
  "show_nat n =
     (if n < 10 then [''0123456789'' ! n]
      else show_nat (n div 10) @ [''0123456789'' ! (n mod 10)])"

declare show_nat.simps [simp del]

definition show_int :: "int \<Rightarrow> string" where
  "show_int i = (if i < 0 then CHR ''-'' # show_nat (nat (- i)) else show_nat (nat i))"

text \<open>\<^verbatim>\<open>sum(xs) / len(xs) if xs else dflt\<close>.\<close>

definition mean_or :: "int list \<Rightarrow> rat \<Rightarrow> rat" where
  "mean_or xs dflt = (if xs = [] then dflt else of_int (sum_list xs) / of_nat (length xs))"

subsection \<open>The payload of the \<^verbatim>\<open>rate\<close> resource\<close>

text \<open>
  One daily payload, as far as \<^verbatim>\<open>extract_average_rate_data\<close> reads it. A key that may be
  missing is an optional field; the samples of the dataset are taken to have their
  \<^verbatim>\<open>time\<close> and \<^verbatim>\<open>value\<close> keys.
\<close>

record heart_item =
  dateTime :: "string option"

record intraday =
  dataset :: "sample list option"
  datasetInterval :: "int option"
  datasetType :: "string option"

record rate_entry =
  activities_heart :: "heart_item list option"
  activities_heart_intraday :: "intraday option"

text \<open>One element of \<^verbatim>\<open>average_rate_records\<close>, with the keys of the dictionary as fields.\<close>

record average_rate_record =
  Id_dispositivo :: string
  DateTime :: string
  TimeStart :: string
  TimeEnd :: string
  Duration :: duration_text
  TimeStartDay :: "string option"
  TimeEndDay :: "string option"
  DurationDay :: duration_text
  TimeStartNight :: "string option"
  TimeEndNight :: "string option"
  DurationNight :: duration_text
  dataset_Interval :: int
  dataset_type :: string
  average_HeartValue :: rat
  average_HeartValue_Activity :: rat
  average_HeartValue_Resting :: rat
  average_HeartValue_Day :: rat
  average_HeartValue_Day_Activity :: rat
  average_HeartValue_Day_Activity_Duration :: duration_text
  average_HeartValue_Day_Resting :: rat
  average_HeartValue_Day_Resting_Duration :: duration_text
  average_HeartValue_Night :: rat
  average_HeartValue_Night_Activity :: rat
  average_HeartValue_Night_Activity_Duration :: duration_text
  average_HeartValue_Night_Resting :: rat
  average_HeartValue_Night_Resting_Duration :: duration_text
  BloodPreassure :: string

subsection \<open>\<^verbatim>\<open>extract_average_rate_data\<close>\<close>

text \<open>
  \<^verbatim>\<open>
  date = entry['activities-heart'][0]['dateTime']
           if 'activities-heart' in entry and entry['activities-heart'] else 'N/A'
  \<close>
\<close>

definition entry_date :: "rate_entry \<Rightarrow> py_error + string" where
  "entry_date entry =
     (case activities_heart entry of
        None \<Rightarrow> Inr ''N/A''
      | Some [] \<Rightarrow> Inr ''N/A''
      | Some (first # _) \<Rightarrow>
          (case dateTime first of None \<Rightarrow> Inl KeyError | Some d \<Rightarrow> Inr d))"

text \<open>
  \<^verbatim>\<open>
  night_data = [d for d in dataset if night_start <= d['time'] < night_end]
  day_data = [d for d in dataset if night_end <= d['time']]
  \<close>
  with \<^verbatim>\<open>night_start = '00:00'\<close> and \<^verbatim>\<open>night_end = '09:00'\<close>.
\<close>

definition night_window :: "sample list \<Rightarrow> sample list" where
  "night_window ds = filter (\<lambda>d. str_le ''00:00'' (time d) \<and> str_less (time d) ''09:00'') ds"

definition day_window :: "sample list \<Rightarrow> sample list" where
  "day_window ds = filter (\<lambda>d. str_le ''09:00'' (time d)) ds"

text \<open>\<^verbatim>\<open>is_complete = lambda data: all(x['value'] for x in data)\<close>\<close>

definition is_complete :: "sample list \<Rightarrow> bool" where
  "is_complete data = list_all (\<lambda>x. bpm_value x \<noteq> 0) data"

text \<open>
  \<^verbatim>\<open>self.format_duration(self.calculate_duration(min(...), max(...)) if data else 0)\<close>
\<close>

definition window_duration :: "sample list \<Rightarrow> py_error + duration_text" where
  "window_duration data =
     (if data = [] then Inr (format_duration 0)
      else (case calculate_duration (min_str (map time data)) (max_str (map time data)) of
              Inl e \<Rightarrow> Inl e
            | Inr d \<Rightarrow> Inr (format_duration d)))"

text \<open>
  The body of the loop over the daily payloads, for a payload with a non-empty dataset
  (source lines 379--458). The assignment under
  \<^verbatim>\<open>if day_complete and night_complete and no_rate_above_110\<close> is kept as
  \<open>special_case\<close>; the two variables it sets are assigned again, unconditionally, further
  down, and the record is built from those later values.
\<close>

definition build_record ::
  "string \<Rightarrow> string \<Rightarrow> intraday \<Rightarrow> sample list \<Rightarrow> py_error + average_rate_record" where
  "build_record dev date intraday_data ds =
     (let interval = (case datasetInterval intraday_data of None \<Rightarrow> 1 | Some i \<Rightarrow> i);
          ds_type = (case datasetType intraday_data of None \<Rightarrow> ''minute'' | Some t \<Rightarrow> t);
          max_rate_on_rest = 110;
          night_data = night_window ds;
          day_data = day_window ds;
          day_complete = is_complete day_data;
          night_complete = is_complete night_data;
          no_rate_above_110 = list_all (\<lambda>d. bpm_value d \<le> max_rate_on_rest) ds;
          special_case =
            (if day_complete \<and> night_complete \<and> no_rate_above_110
             then Some (120 :: rat, 120 :: rat) else None);
          active_data = map bpm_value (filter (\<lambda>d. bpm_value d > max_rate_on_rest) ds);
          resting_data = map bpm_value (filter (\<lambda>d. bpm_value d \<le> max_rate_on_rest) ds);
          time_start_day = (if day_data = [] then None else Some (min_str (map time day_data)));
          time_end_day = (if day_data = [] then None else Some (max_str (map time day_data)));
          time_start_night =
            (if night_data = [] then None else Some (min_str (map time night_data)));
          time_end_night =
            (if night_data = [] then None else Some (max_str (map time night_data)));
          active_day_data =
            map bpm_value (filter (\<lambda>d. bpm_value d > max_rate_on_rest) day_data);
          resting_day_data =
            map bpm_value (filter (\<lambda>d. bpm_value d \<le> max_rate_on_rest) day_data);
          active_night_data =
            map bpm_value (filter (\<lambda>d. bpm_value d > max_rate_on_rest) night_data);
          resting_night_data =
            map bpm_value (filter (\<lambda>d. bpm_value d \<le> max_rate_on_rest) night_data);
          time_start = time (hd ds);
          time_end = time (last ds)
      in case calculate_duration time_start time_end of
           Inl e \<Rightarrow> Inl e
         | Inr full_duration \<Rightarrow>
        (case window_duration day_data of
           Inl e \<Rightarrow> Inl e
         | Inr duration_day \<Rightarrow>
        (case window_duration night_data of
           Inl e \<Rightarrow> Inl e
         | Inr duration_night \<Rightarrow>
        (case calculate_period_durations day_data of
           Inl e \<Rightarrow> Inl e
         | Inr (avg_day_active_duration, avg_day_resting_duration) \<Rightarrow>
        (case calculate_period_durations night_data of
           Inl e \<Rightarrow> Inl e
         | Inr (avg_night_active_duration, avg_night_resting_duration) \<Rightarrow>
            (let avg_heart_rate = mean_or (map bpm_value ds) 0;
                 avg_heart_rate_active = mean_or active_data 120;
                 avg_heart_rate_resting = mean_or resting_data 80;
                 avg_heart_rate_day = mean_or (map bpm_value day_data) 0;
                 avg_heart_rate_day_active = mean_or active_day_data 120;
                 avg_heart_rate_day_resting = mean_or resting_day_data 80;
                 avg_heart_rate_night = mean_or (map bpm_value night_data) 0;
                 avg_heart_rate_night_active = mean_or active_night_data 120;
                 avg_heart_rate_night_resting = mean_or resting_night_data 80;
                 blood_pressure =
                   show_int (py_round_int avg_heart_rate_active) @ '' / '' @
                   show_int (py_round_int avg_heart_rate_resting)
             in Inr \<lparr> Id_dispositivo = dev,
                      DateTime = date,
                      TimeStart = time_start,
                      TimeEnd = time_end,
                      Duration = format_duration full_duration,
                      TimeStartDay = time_start_day,
                      TimeEndDay = time_end_day,
                      DurationDay = duration_day,
                      TimeStartNight = time_start_night,
                      TimeEndNight = time_end_night,
                      DurationNight = duration_night,
                      dataset_Interval = interval,
                      dataset_type = ds_type,
                      average_HeartValue = py_round avg_heart_rate 4,
                      average_HeartValue_Activity = py_round avg_heart_rate_active 2,
                      average_HeartValue_Resting = py_round avg_heart_rate_resting 2,
                      average_HeartValue_Day = py_round avg_heart_rate_day 2,
                      average_HeartValue_Day_Activity = py_round avg_heart_rate_day_active 2,
                      average_HeartValue_Day_Activity_Duration = avg_day_active_duration,
                      average_HeartValue_Day_Resting = py_round avg_heart_rate_day_resting 2,
                      average_HeartValue_Day_Resting_Duration = avg_day_resting_duration,
                      average_HeartValue_Night = py_round avg_heart_rate_night 2,
                      average_HeartValue_Night_Activity = py_round avg_heart_rate_night_active 2,
                      average_HeartValue_Night_Activity_Duration = avg_night_active_duration,
                      average_HeartValue_Night_Resting = py_round avg_heart_rate_night_resting 2,
                      average_HeartValue_Night_Resting_Duration = avg_night_resting_duration,
                      BloodPreassure = blood_pressure \<rparr>))))))"

text \<open>
  One round of \<^verbatim>\<open>for entry in rate_entries\<close>: the record that is appended, if any.
  \<^verbatim>\<open>
  if 'activities-heart-intraday' in entry:
      date = ...
      intraday_data = entry['activities-heart-intraday']
      dataset = intraday_data.get('dataset', [])
      ...
      if dataset:
          ...
          average_rate_records.append({...})
  \<close>
\<close>

definition extract_average_rate_entry ::
  "string \<Rightarrow> rate_entry \<Rightarrow> py_error + average_rate_record option" where
  "extract_average_rate_entry dev entry =
     (case activities_heart_intraday entry of
        None \<Rightarrow> Inr None
      | Some intraday_data \<Rightarrow>
          (case entry_date entry of
             Inl e \<Rightarrow> Inl e
           | Inr date \<Rightarrow>
               (let ds = (case dataset intraday_data of None \<Rightarrow> [] | Some xs \<Rightarrow> xs)
                in if ds \<noteq> [] then
                     (case build_record dev date intraday_data ds of
                        Inl e \<Rightarrow> Inl e
                      | Inr r \<Rightarrow> Inr (Some r))
                   else Inr None)))"

text \<open>
  The list \<^verbatim>\<open>average_rate_records\<close> at the end of the loop, from which the table of
  \<^verbatim>\<open>AverageRate.csv\<close> is made (one row per record; the conversion to a DataFrame and the
  reformatting of the date column are not modelled).
\<close>

fun extract_average_rate_data ::
  "string \<Rightarrow> rate_entry list \<Rightarrow> py_error + average_rate_record list" where
  "extract_average_rate_data dev [] = Inr []"
| "extract_average_rate_data dev (entry # rest) =
     (case extract_average_rate_entry dev entry of
        Inl e \<Rightarrow> Inl e
      | Inr r \<Rightarrow>
          (case extract_average_rate_data dev rest of
             Inl e \<Rightarrow> Inl e
           | Inr rs \<Rightarrow> Inr (case r of None \<Rightarrow> rs | Some x \<Rightarrow> x # rs)))"

section \<open>DataFormatting.py: joining the tables\<close>

text \<open>
  A cell of a table; \<open>Null\<close> is a missing value (\<^verbatim>\<open>None\<close> or \<^verbatim>\<open>NaN\<close>).
\<close>

datatype cell = Null | NumCell rat | StrCell string | BoolCell bool

text \<open>
  A DataFrame: its column names and its rows in order. A row gives the cell of every
  column name, \<open>Null\<close> for a column that the table does not have.
\<close>

record dataframe =
  columns :: "string list"
  rows :: "(string \<Rightarrow> cell) list"

text \<open>\<^verbatim>\<open>df.empty\<close>: no rows or no columns.\<close>

definition empty_df :: "dataframe \<Rightarrow> bool" where
  "empty_df df = (rows df = [] \<or> columns df = [])"

text \<open>\<^verbatim>\<open>functools.reduce\<close> without an initial value, on a non-empty list.\<close>

definition reduce :: "('a \<Rightarrow> 'a \<Rightarrow> 'a) \<Rightarrow> 'a list \<Rightarrow> 'a" where
  "reduce f xs = foldl f (hd xs) (tl xs)"

text \<open>
  The joined table (source lines 479--485). \<open>merge\<close> stands for
  \<^verbatim>\<open>pd.merge(left, right, on=['Id_dispositivo', 'DateTime'], how='outer')\<close>, which is a
  parameter here. The result is \<open>None\<close> when every table is empty.
  \<^verbatim>\<open>
  non_empty_data_frames = [df for df in data_frames if not df.empty]
  if non_empty_data_frames:
      combined_df = reduce(lambda left, right: pd.merge(...), non_empty_data_frames)
      if 'logId' not in combined_df.columns:
          combined_df['logId'] = None
  \<close>
\<close>

definition combined_table ::
  "(dataframe \<Rightarrow> dataframe \<Rightarrow> dataframe) \<Rightarrow> dataframe list \<Rightarrow> dataframe option" where
  "combined_table merge data_frames =
     (let non_empty_data_frames = filter (\<lambda>df. \<not> empty_df df) data_frames
      in if non_empty_data_frames \<noteq> [] then
           (let combined_df = reduce merge non_empty_data_frames
            in Some (if ''logId'' \<notin> set (columns combined_df)
                     then \<lparr> columns = columns combined_df @ [''logId''],
                            rows = map (\<lambda>r. r(''logId'' := Null)) (rows combined_df) \<rparr>
                     else combined_df))
         else None)"

text \<open>\<^verbatim>\<open>df[mask]\<close> for a boolean mask with one entry per row.\<close>

definition select_rows :: "bool list \<Rightarrow> dataframe \<Rightarrow> dataframe" where
  "select_rows bs df = df\<lparr>rows := map snd (filter fst (zip bs (rows df)))\<rparr>"

text \<open>
  \<^verbatim>\<open>join_and_save_combined_data\<close>: the files handed to \<^verbatim>\<open>save_data_to_csv\<close>, in order, as
  pairs of file name and table; none when there is nothing to merge.
  \<^verbatim>\<open>
  complete_mask = combined_df['logId'].notnull()
  complete_df = combined_df[complete_mask]
  incomplete_df = combined_df[~complete_mask]
  self.data_storage.save_data_to_csv(complete_df, 'Merged.csv')
  self.data_storage.save_data_to_csv(incomplete_df, 'Registros_Incompletos.csv')
  \<close>
\<close>

definition join_and_save_combined_data ::
  "(dataframe \<Rightarrow> dataframe \<Rightarrow> dataframe) \<Rightarrow> dataframe list \<Rightarrow> (string \<times> dataframe) list" where
  "join_and_save_combined_data merge data_frames =
     (case combined_table merge data_frames of
        None \<Rightarrow> []
      | Some combined_df \<Rightarrow>
          (let complete_mask = map (\<lambda>r. r ''logId'' \<noteq> Null) (rows combined_df);
               complete_df = select_rows complete_mask combined_df;
               incomplete_df = select_rows (map Not complete_mask) combined_df
           in [(''Merged.csv'', complete_df), (''Registros_Incompletos.csv'', incomplete_df)]))"

text \<open>
  An outer join on the two key columns, as an example of the \<open>merge\<close> parameter: every row
  of the left table, joined with the rows of the right table that have the same keys, then
  the rows of the right table that match no row of the left one.
\<close>

definition same_keys :: "(string \<Rightarrow> cell) \<Rightarrow> (string \<Rightarrow> cell) \<Rightarrow> bool" where
  "same_keys l r = (l ''Id_dispositivo'' = r ''Id_dispositivo'' \<and> l ''DateTime'' = r ''DateTime'')"

definition join_rows :: "string list \<Rightarrow> (string \<Rightarrow> cell) \<Rightarrow> (string \<Rightarrow> cell) \<Rightarrow> string \<Rightarrow> cell" where
  "join_rows right_columns l r = (\<lambda>c. if c \<in> set right_columns then r c else l c)"

definition outer_join :: "dataframe \<Rightarrow> dataframe \<Rightarrow> dataframe" where
  "outer_join left right =
     \<lparr> columns = columns left @ filter (\<lambda>c. c \<notin> set (columns left)) (columns right),
       rows =
         concat (map (\<lambda>l. case filter (same_keys l) (rows right) of
                             [] \<Rightarrow> [l]
                           | ms \<Rightarrow> map (join_rows (columns right) l) ms) (rows left)) @
         filter (\<lambda>r. \<not> list_ex (\<lambda>l. same_keys l r) (rows left)) (rows right) \<rparr>"

subsection \<open>Example inputs\<close>

text \<open>
  Daily \<^verbatim>\<open>rate\<close> payloads used as concrete inputs: a day on which no sample exceeds 110,
  a day without the \<^verbatim>\<open>activities-heart-intraday\<close> key, and a day whose dataset is empty.
\<close>

definition calm_day :: rate_entry where
  "calm_day =
     \<lparr> activities_heart = Some [\<lparr> dateTime = Some ''2024-01-01'' \<rparr>],
       activities_heart_intraday = Some
         \<lparr> dataset = Some [\<lparr> time = ''08:59:00'', bpm_value = 62 \<rparr>,
                           \<lparr> time = ''09:00:00'', bpm_value = 75 \<rparr>,
                           \<lparr> time = ''09:01:00'', bpm_value = 110 \<rparr>],
           datasetInterval = Some 1, datasetType = Some ''minute'' \<rparr> \<rparr>"

definition day_without_intraday :: rate_entry where
  "day_without_intraday =
     \<lparr> activities_heart = Some [\<lparr> dateTime = Some ''2024-01-02'' \<rparr>],
       activities_heart_intraday = None \<rparr>"

definition day_with_empty_dataset :: rate_entry where
  "day_with_empty_dataset =
     \<lparr> activities_heart = Some [\<lparr> dateTime = Some ''2024-01-03'' \<rparr>],
       activities_heart_intraday = Some
         \<lparr> dataset = Some [], datasetInterval = Some 1, datasetType = Some ''minute'' \<rparr> \<rparr>"

text \<open>Tables used as concrete inputs of the join.\<close>

definition sleep_table :: dataframe where
  "sleep_table =
     \<lparr> columns = [''Id_dispositivo'', ''logId'', ''DateTime''],
       rows = [(\<lambda>c. Null)(''Id_dispositivo'' := StrCell ''C1'', ''logId'' := NumCell 41,
                  ''DateTime'' := StrCell ''01/01/2024''),
               (\<lambda>c. Null)(''Id_dispositivo'' := StrCell ''C1'', ''logId'' := NumCell 42,
                  ''DateTime'' := StrCell ''02/01/2024'')] \<rparr>"

definition steps_table :: dataframe where
  "steps_table =
     \<lparr> columns = [''Id_dispositivo'', ''DateTime'', ''TotalSteps''],
       rows = [(\<lambda>c. Null)(''Id_dispositivo'' := StrCell ''C1'',
                  ''DateTime'' := StrCell ''01/01/2024'', ''TotalSteps'' := NumCell 9000),
               (\<lambda>c. Null)(''Id_dispositivo'' := StrCell ''C1'',
                  ''DateTime'' := StrCell ''02/01/2024'', ''TotalSteps'' := NumCell 100),
               (\<lambda>c. Null)(''Id_dispositivo'' := StrCell ''C1'',
                  ''DateTime'' := StrCell ''03/01/2024'', ''TotalSteps'' := NumCell 7000)] \<rparr>"

definition no_table :: dataframe where
  "no_table = \<lparr> columns = [], rows = [] \<rparr>"

section \<open>Properties of the duration functions\<close>

lemmas time_eval = calculate_duration_def strptime_HMS_def time_field_def
  is_digit_def digits_val_def digit_val_def

lemma is_digit_not_colon: "is_digit c \<Longrightarrow> c \<noteq> CHR '':''"
  by (auto simp: is_digit_def)

lemma valid_hms_parse:
  assumes "valid_hms s"
  shows "\<exists>t. strptime_HMS s = Inr t"
proof -
  from assms obtain h1 h2 m1 m2 s1 s2 where
    s: "s = [h1, h2, CHR '':'', m1, m2, CHR '':'', s1, s2]"
    and d: "is_digit h1" "is_digit h2" "is_digit m1" "is_digit m2" "is_digit s1" "is_digit s2"
    and r: "digits_val [h1, h2] \<le> 23" "digits_val [m1, m2] \<le> 59" "digits_val [s1, s2] \<le> 59"
    by (auto simp: valid_hms_def split: list.splits)
  have sp: "split_on CHR '':'' s = [[h1, h2], [m1, m2], [s1, s2]]"
    using d by (simp add: s is_digit_not_colon)
  have f: "time_field [h1, h2] = Some (digits_val [h1, h2])"
    "time_field [m1, m2] = Some (digits_val [m1, m2])"
    "time_field [s1, s2] = Some (digits_val [s1, s2])"
    using d by (simp_all add: time_field_def)
  show ?thesis using r by (simp add: strptime_HMS_def sp f)
qed

lemma strptime_range: "strptime_HMS s = Inr t \<Longrightarrow> 0 \<le> t \<and> t < 86400"
  by (auto simp: strptime_HMS_def split: list.splits option.splits if_splits)

lemma calculate_duration_range: "calculate_duration a b = Inr d \<Longrightarrow> 0 \<le> d \<and> d < 86400"
  by (auto simp: calculate_duration_def split: if_splits sum.splits dest!: strptime_range)

lemma calculate_duration_valid:
  assumes "valid_hms a" "valid_hms b"
  shows "\<exists>d. calculate_duration a b = Inr d"
proof -
  obtain s where s: "strptime_HMS a = Inr s" using valid_hms_parse[OF assms(1)] by blast
  obtain e where e: "strptime_HMS b = Inr e" using valid_hms_parse[OF assms(2)] by blast
  show ?thesis by (simp add: calculate_duration_def s e)
qed

text \<open>
  Claim C7. \<^verbatim>\<open>calculate_duration\<close> returns 0 whenever either argument is the sentinel
  \<^verbatim>\<open>"N/A"\<close>; otherwise, when both strings parse, the result is the end minus the start,
  with 24 hours (86400 seconds) added to the end first if the end is before the start; and
  the duration from \<^verbatim>\<open>"23:30:00"\<close> to \<^verbatim>\<open>"00:10:00"\<close> is 2400 seconds.
\<close>

theorem calculate_duration_spec:
  "(start_time = ''N/A'' \<or> end_time = ''N/A'' \<longrightarrow>
      calculate_duration start_time end_time = Inr 0) \<and>
   (start_time \<noteq> ''N/A'' \<and> end_time \<noteq> ''N/A'' \<and>
    strptime_HMS start_time = Inr s \<and> strptime_HMS end_time = Inr e \<longrightarrow>
      calculate_duration start_time end_time =
        Inr (if e < s then (e + 86400) - s else e - s)) \<and>
   calculate_duration ''23:30:00'' ''00:10:00'' = Inr 2400"
proof (intro conjI impI)
  show "calculate_duration ''23:30:00'' ''00:10:00'' = Inr 2400" by (simp add: time_eval)
qed (auto simp: calculate_duration_def)

theorem calculate_duration_spec_witness:
  "calculate_duration ''N/A'' ''07:15:00'' = Inr 0 \<and>
   calculate_duration ''07:15:00'' ''N/A'' = Inr 0 \<and>
   calculate_duration ''22:00:00'' ''01:00:30'' = Inr 10830 \<and>
   calculate_duration ''01:00:30'' ''22:00:00'' = Inr 75570"
proof -
  have p: "strptime_HMS ''22:00:00'' = Inr 79200" "strptime_HMS ''01:00:30'' = Inr 3630"
    by (simp_all add: time_eval)
  show ?thesis
    using calculate_duration_spec [of "''N/A''" "''07:15:00''"]
      calculate_duration_spec [of "''07:15:00''" "''N/A''"]
      calculate_duration_spec [of "''22:00:00''" "''01:00:30''" 79200 3630]
      calculate_duration_spec [of "''01:00:30''" "''22:00:00''" 3630 79200]
    by (simp add: p)
qed

section \<open>Properties of the run-length segmentation\<close>

lemma period_loop_same_type:
  "current_period_type st = Some c \<Longrightarrow> \<forall>e \<in> set rest. classify e = c \<Longrightarrow>
   period_loop prev rest st = Inr st"
  by (induction rest arbitrary: prev) (simp_all add: Let_def)

text \<open>
  Claim C1, as stated: for every sequence of at least two samples the active total plus the
  resting total equals the duration from the first sample's time to the last sample's time.
  The code does not do this: a run is closed at the time of its own last sample, so the
  time between the last sample of one run and the first sample of the next is in neither
  total. With a resting sample at 08:00:00 followed by an active sample at 08:00:01 both
  runs have a single sample, both totals are 0, and the duration from first to last is 1.
\<close>

theorem period_totals_gap_counterexample:
  "period_totals [\<lparr>time = ''08:00:00'', bpm_value = 100\<rparr>,
                  \<lparr>time = ''08:00:01'', bpm_value = 120\<rparr>] = Inr (0, 0) \<and>
   calculate_duration ''08:00:00'' ''08:00:01'' = Inr 1 \<and> (0::int) + 0 \<noteq> 1"
  by (simp add: period_totals_def initial_scan_def classify_def close_period_def time_eval)

lemma period_totals_uniform:
  assumes "data \<noteq> []" and "\<forall>e \<in> set data. classify e = c"
  shows "period_totals data =
     (case calculate_duration (time (hd data)) (time (last data)) of
        Inl e \<Rightarrow> Inl e
      | Inr d \<Rightarrow> Inr (if c = active then (d, 0) else (0, d)))"
proof -
  from assms(1) obtain x xs where d: "data = x # xs" by (cases data) auto
  define st where "st = initial_scan\<lparr>current_period_start := Some (time x),
                current_period_type := Some c\<rparr>"
  have cx: "classify x = c" using assms(2) d by simp
  have t: "current_period_type st = Some c" by (simp add: st_def)
  have "period_loop x xs st = Inr st"
    using assms(2) d by (intro period_loop_same_type[OF t]) auto
  then have l: "period_loop (last (x # xs)) (x # xs) initial_scan = Inr st"
    by (simp add: cx Let_def initial_scan_def st_def)
  have s: "current_period_start st = Some (time x)" by (simp add: st_def)
  have c: "close_period (time x) (time (last (x # xs))) st =
     (case calculate_duration (time x) (time (last (x # xs))) of
        Inl e \<Rightarrow> Inl e
      | Inr d \<Rightarrow> Inr (if c = active
          then st\<lparr>active_duration_total := d\<rparr>
          else st\<lparr>resting_duration_total := d\<rparr>))"
    by (simp add: close_period_def st_def initial_scan_def split: sum.splits)
  have "period_totals (x # xs) =
     (case calculate_duration (time x) (time (last (x # xs))) of
        Inl e \<Rightarrow> Inl e
      | Inr d \<Rightarrow> Inr (if c = active then (d, 0) else (0, d)))"
    unfolding period_totals_def list.case l sum.case s option.case c
    by (simp add: st_def initial_scan_def split: sum.splits)
  then show ?thesis by (simp add: d)
qed


lemma valid_hms_not_NA: "valid_hms s \<Longrightarrow> s \<noteq> ''N/A''"
  by (auto simp: valid_hms_def)

lemma calculate_duration_sorted:
  assumes "valid_hms a" "valid_hms b" "seconds_of a \<le> seconds_of b"
  shows "calculate_duration a b = Inr (seconds_of b - seconds_of a)"
proof -
  obtain s where s: "strptime_HMS a = Inr s" using valid_hms_parse[OF assms(1)] by blast
  obtain e where e: "strptime_HMS b = Inr e" using valid_hms_parse[OF assms(2)] by blast
  from assms(3) have "s \<le> e" by (simp add: seconds_of_def s e)
  then show ?thesis
    using valid_hms_not_NA[OF assms(1)] valid_hms_not_NA[OF assms(2)]
    by (simp add: calculate_duration_def s e seconds_of_def)
qed

lemma close_period_sorted:
  assumes "valid_hms a" "valid_hms b" "seconds_of a \<le> seconds_of b"
  shows "\<exists>st'. close_period a b st = Inr st' \<and>
           total_of st' = total_of st + (seconds_of b - seconds_of a) \<and>
           current_period_start st' = current_period_start st \<and>
           current_period_type st' = current_period_type st"
  by (simp add: close_period_def calculate_duration_sorted[OF assms] total_of_def)

lemma period_loop_gaps:
  "\<forall>x \<in> set rest. valid_hms (time x) \<Longrightarrow> valid_hms (time prev) \<Longrightarrow>
   sorted (map (\<lambda>x. seconds_of (time x)) (prev # rest)) \<Longrightarrow>
   current_period_start st = Some s0 \<Longrightarrow> valid_hms s0 \<Longrightarrow>
   seconds_of s0 \<le> seconds_of (time prev) \<Longrightarrow>
   current_period_type st = Some (classify prev) \<Longrightarrow>
   \<exists>st' s1. period_loop prev rest st = Inr st' \<and>
     current_period_start st' = Some s1 \<and> valid_hms s1 \<and>
     seconds_of s1 \<le> seconds_of (time (last (prev # rest))) \<and>
     total_of st' + (seconds_of (time (last (prev # rest))) - seconds_of s1) =
       total_of st + (seconds_of (time (last (prev # rest))) - seconds_of s0)
         - gap_total (prev # rest)"
proof (induction rest arbitrary: prev st s0)
  case Nil
  then show ?case by simp
next
  case (Cons e rest)
  have ve: "valid_hms (time e)" and vr: "\<forall>x \<in> set rest. valid_hms (time x)"
    using Cons.prems(1) by simp_all
  have pe: "seconds_of (time prev) \<le> seconds_of (time e)"
    using Cons.prems(3) by simp
  have sr: "sorted (map (\<lambda>x. seconds_of (time x)) (e # rest))"
    using Cons.prems(3) by simp
  have l: "last (prev # e # rest) = last (e # rest)" by simp
  show ?case
  proof (cases "classify e = classify prev")
    case True
    have step: "period_loop prev (e # rest) st = period_loop e rest st"
      using True Cons.prems(7) by (simp add: Let_def)
    have s0e: "seconds_of s0 \<le> seconds_of (time e)" using Cons.prems(6) pe by linarith
    have ty: "current_period_type st = Some (classify e)" using True Cons.prems(7) by simp
    from Cons.IH[OF vr ve sr Cons.prems(4) Cons.prems(5) s0e ty]
    obtain st' s1 where
      r: "period_loop e rest st = Inr st'" "current_period_start st' = Some s1" "valid_hms s1"
         "seconds_of s1 \<le> seconds_of (time (last (e # rest)))"
         "total_of st' + (seconds_of (time (last (e # rest))) - seconds_of s1) =
            total_of st + (seconds_of (time (last (e # rest))) - seconds_of s0)
              - gap_total (e # rest)"
      by blast
    have g: "gap_total (prev # e # rest) = gap_total (e # rest)" using True by simp
    show ?thesis unfolding step l g using r by blast
  next
    case False
    from close_period_sorted[OF Cons.prems(5) Cons.prems(2) Cons.prems(6), of st]
    obtain st1 where
      c: "close_period s0 (time prev) st = Inr st1"
         "total_of st1 = total_of st + (seconds_of (time prev) - seconds_of s0)"
      by blast
    define st2 where "st2 = st1\<lparr>current_period_start := Some (time e),
                    current_period_type := Some (classify e)\<rparr>"
    have step: "period_loop prev (e # rest) st = period_loop e rest st2"
      using False Cons.prems(4,7) c(1) by (simp add: Let_def st2_def)
    have t2: "total_of st2 = total_of st1" by (simp add: st2_def total_of_def)
    have a: "current_period_start st2 = Some (time e)"
      "current_period_type st2 = Some (classify e)" by (simp_all add: st2_def)
    from Cons.IH[OF vr ve sr a(1) ve order_refl a(2)]
    obtain st' s1 where
      r: "period_loop e rest st2 = Inr st'" "current_period_start st' = Some s1" "valid_hms s1"
         "seconds_of s1 \<le> seconds_of (time (last (e # rest)))"
         "total_of st' + (seconds_of (time (last (e # rest))) - seconds_of s1) =
            total_of st2 + (seconds_of (time (last (e # rest))) - seconds_of (time e))
              - gap_total (e # rest)"
      by blast
    have g: "gap_total (prev # e # rest) =
        (seconds_of (time e) - seconds_of (time prev)) + gap_total (e # rest)"
      using False by simp
    have "total_of st' + (seconds_of (time (last (e # rest))) - seconds_of s1) =
            total_of st + (seconds_of (time (last (e # rest))) - seconds_of s0)
              - gap_total (prev # e # rest)"
      using r(5) t2 c(2) g by linarith
    then show ?thesis unfolding step l using r(1-4) by blast
  qed
qed

lemma period_totals_gaps:
  assumes ne: "data \<noteq> []" and v: "\<forall>e \<in> set data. valid_hms (time e)"
    and s: "sorted (map (\<lambda>x. seconds_of (time x)) data)"
  shows "\<exists>act rest. period_totals data = Inr (act, rest) \<and>
           calculate_duration (time (hd data)) (time (last data)) =
             Inr (seconds_of (time (last data)) - seconds_of (time (hd data))) \<and>
           act + rest =
             (seconds_of (time (last data)) - seconds_of (time (hd data))) - gap_total data"
proof -
  from ne obtain x xs where d: "data = x # xs" by (cases data) auto
  define st0 where "st0 = initial_scan\<lparr>current_period_start := Some (time x),
                current_period_type := Some (classify x)\<rparr>"
  have vx: "valid_hms (time x)" and vxs: "\<forall>e \<in> set xs. valid_hms (time e)"
    using v d by simp_all
  have sx: "sorted (map (\<lambda>x. seconds_of (time x)) (x # xs))" using s d by simp
  have t0: "total_of st0 = 0" by (simp add: st0_def total_of_def initial_scan_def)
  have a: "current_period_start st0 = Some (time x)"
    "current_period_type st0 = Some (classify x)" by (simp_all add: st0_def)
  from period_loop_gaps[OF vxs vx sx a(1) vx order_refl a(2)]
  obtain st' s1 where
    r: "period_loop x xs st0 = Inr st'" "current_period_start st' = Some s1" "valid_hms s1"
       "seconds_of s1 \<le> seconds_of (time (last (x # xs)))"
       "total_of st' + (seconds_of (time (last (x # xs))) - seconds_of s1) =
          total_of st0 + (seconds_of (time (last (x # xs))) - seconds_of (time x))
            - gap_total (x # xs)"
    by blast
  have l: "period_loop (last (x # xs)) (x # xs) initial_scan = Inr st'"
    using r(1) by (simp add: Let_def initial_scan_def st0_def)
  have vl: "valid_hms (time (last (x # xs)))" using v d by (metis last_in_set list.discI)
  from close_period_sorted[OF r(3) vl r(4), of st'] obtain st2 where
    c: "close_period s1 (time (last (x # xs))) st' = Inr st2"
       "total_of st2 = total_of st' + (seconds_of (time (last (x # xs))) - seconds_of s1)"
    by blast
  have pt: "period_totals (x # xs) = Inr (active_duration_total st2, resting_duration_total st2)"
    unfolding period_totals_def list.case l sum.case r(2) option.case c(1) by simp
  have fl: "seconds_of (time x) \<le> seconds_of (time (last (x # xs)))"
    using sx by (cases xs) (auto simp: last_in_set)
  have cd: "calculate_duration (time x) (time (last (x # xs))) =
      Inr (seconds_of (time (last (x # xs))) - seconds_of (time x))"
    by (rule calculate_duration_sorted[OF vx vl fl])
  have "active_duration_total st2 + resting_duration_total st2 =
      (seconds_of (time (last (x # xs))) - seconds_of (time x)) - gap_total (x # xs)"
    using c(2) r(5) t0 by (simp add: total_of_def)
  with pt cd show ?thesis unfolding d by (intro exI[of _ "active_duration_total st2"]
        exI[of _ "resting_duration_total st2"]) simp
qed

text \<open>
  Claim C1, amended: for every non-empty sample sequence (so also every sequence of at
  least two samples) whose times are valid and non-decreasing, the active total plus the
  resting total equals the duration from the first sample's time to the last sample's time
  minus the gaps between the runs, a gap being the time from the last sample of a run to
  the first sample of the next run. In particular, for every non-empty sequence whose
  samples all have the same classification (whatever its times), the total of that
  classification is the duration from the first sample's time to the last sample's time
  and the other total is 0 (and if that duration cannot be computed because a time does
  not parse, the function fails with the same error).
\<close>

theorem period_totals_runs:
  "(data \<noteq> [] \<and> (\<forall>e \<in> set data. classify e = c) \<longrightarrow>
      period_totals data =
        (case calculate_duration (time (hd data)) (time (last data)) of
           Inl e \<Rightarrow> Inl e
         | Inr d \<Rightarrow> Inr (if c = active then (d, 0) else (0, d)))) \<and>
   (data \<noteq> [] \<and> (\<forall>e \<in> set data. valid_hms (time e)) \<and>
    sorted (map (\<lambda>x. seconds_of (time x)) data) \<longrightarrow>
      (\<exists>act rest d. period_totals data = Inr (act, rest) \<and>
         calculate_duration (time (hd data)) (time (last data)) = Inr d \<and>
         act + rest = d - gap_total data))"
proof -
  have p1: "period_totals data =
        (case calculate_duration (time (hd data)) (time (last data)) of
           Inl e \<Rightarrow> Inl e
         | Inr d \<Rightarrow> Inr (if c = active then (d, 0) else (0, d)))"
    if h: "data \<noteq> [] \<and> (\<forall>e \<in> set data. classify e = c)"
    using h period_totals_uniform[of data c] by blast
  have p2: "\<exists>act rest d. period_totals data = Inr (act, rest) \<and>
         calculate_duration (time (hd data)) (time (last data)) = Inr d \<and>
         act + rest = d - gap_total data"
    if h: "data \<noteq> [] \<and> (\<forall>e \<in> set data. valid_hms (time e)) \<and>
           sorted (map (\<lambda>x. seconds_of (time x)) data)"
    using h period_totals_gaps[of data] by blast
  from p1 p2 show ?thesis by blast
qed

theorem period_totals_runs_witness:
  "period_totals [\<lparr>time = ''08:00:00'', bpm_value = 100\<rparr>,
                  \<lparr>time = ''08:00:01'', bpm_value = 90\<rparr>,
                  \<lparr>time = ''08:00:05'', bpm_value = 110\<rparr>] = Inr (0, 5) \<and>
   (\<exists>act rest d.
      period_totals [\<lparr>time = ''08:00:00'', bpm_value = 100\<rparr>,
                     \<lparr>time = ''08:00:01'', bpm_value = 100\<rparr>,
                     \<lparr>time = ''08:00:05'', bpm_value = 120\<rparr>,
                     \<lparr>time = ''08:00:07'', bpm_value = 120\<rparr>] = Inr (act, rest) \<and>
      calculate_duration ''08:00:00'' ''08:00:07'' = Inr d \<and> act + rest = d - 4)"
proof -
  let ?d1 = "[\<lparr>time = ''08:00:00'', bpm_value = 100\<rparr>,
              \<lparr>time = ''08:00:01'', bpm_value = 90\<rparr>,
              \<lparr>time = ''08:00:05'', bpm_value = 110\<rparr>]"
  let ?d2 = "[\<lparr>time = ''08:00:00'', bpm_value = 100\<rparr>,
              \<lparr>time = ''08:00:01'', bpm_value = 100\<rparr>,
              \<lparr>time = ''08:00:05'', bpm_value = 120\<rparr>,
              \<lparr>time = ''08:00:07'', bpm_value = 120\<rparr>]"
  have u: "?d1 \<noteq> [] \<and> (\<forall>e \<in> set ?d1. classify e = resting)"
    by (simp add: classify_def)
  have c: "calculate_duration ''08:00:00'' ''08:00:05'' = Inr 5" by (simp add: time_eval)
  have s: "seconds_of ''08:00:00'' = 28800" "seconds_of ''08:00:01'' = 28801"
    "seconds_of ''08:00:05'' = 28805" "seconds_of ''08:00:07'' = 28807"
    by (simp_all add: seconds_of_def time_eval)
  have v: "?d2 \<noteq> [] \<and> (\<forall>e \<in> set ?d2. valid_hms (time e)) \<and>
           sorted (map (\<lambda>x. seconds_of (time x)) ?d2)"
    by (simp add: s valid_hms_def is_digit_def digits_val_def digit_val_def)
  from period_totals_runs[of ?d1 resting] u c have e1: "period_totals ?d1 = Inr (0, 5)"
    by simp
  from period_totals_runs[of ?d2] v have
    "\<exists>act rest d. period_totals ?d2 = Inr (act, rest) \<and>
       calculate_duration (time (hd ?d2)) (time (last ?d2)) = Inr d \<and>
       act + rest = d - gap_total ?d2"
    by blast
  then have e2: "\<exists>act rest d. period_totals ?d2 = Inr (act, rest) \<and>
       calculate_duration ''08:00:00'' ''08:00:07'' = Inr d \<and> act + rest = d - 4"
    by (simp add: s classify_def)
  from e1 e2 show ?thesis by (rule conjI)
qed

lemma close_period_nonneg:
  "close_period start end_time st = Inr st' \<Longrightarrow>
   0 \<le> active_duration_total st \<Longrightarrow> 0 \<le> resting_duration_total st \<Longrightarrow>
   0 \<le> active_duration_total st' \<and> 0 \<le> resting_duration_total st'"
  by (auto simp: close_period_def split: sum.splits if_splits dest!: calculate_duration_range)

lemma period_loop_nonneg:
  "period_loop prev data st = Inr st' \<Longrightarrow>
   0 \<le> active_duration_total st \<Longrightarrow> 0 \<le> resting_duration_total st \<Longrightarrow>
   0 \<le> active_duration_total st' \<and> 0 \<le> resting_duration_total st'"
proof (induction data arbitrary: prev st)
  case Nil
  then show ?case by simp
next
  case (Cons entry rest)
  show ?case
  proof (cases "current_period_type st \<noteq> Some (classify entry)")
    case False
    with Cons show ?thesis by (simp add: Let_def)
  next
    case True
    show ?thesis
    proof (cases "current_period_start st")
      case None
      with True Cons.prems have
        "period_loop entry rest (st\<lparr>current_period_start := Some (time entry),
            current_period_type := Some (classify entry)\<rparr>) = Inr st'"
        by (simp add: Let_def)
      from Cons.IH[OF this] Cons.prems show ?thesis by simp
    next
      case (Some start)
      with True Cons.prems obtain st1 where
        c: "close_period start (time prev) st = Inr st1" and
        l: "period_loop entry rest (st1\<lparr>current_period_start := Some (time entry),
            current_period_type := Some (classify entry)\<rparr>) = Inr st'"
        by (auto simp: Let_def split: sum.splits)
      from close_period_nonneg[OF c] Cons.prems have
        "0 \<le> active_duration_total st1 \<and> 0 \<le> resting_duration_total st1" by simp
      with Cons.IH[OF l] show ?thesis by simp
    qed
  qed
qed

lemma period_totals_nonneg:
  "period_totals data = Inr (a, r) \<Longrightarrow> 0 \<le> a \<and> 0 \<le> r"
proof (cases data)
  case Nil
  assume "period_totals data = Inr (a, r)"
  with Nil show ?thesis by (simp add: period_totals_def)
next
  case (Cons x xs)
  assume h: "period_totals data = Inr (a, r)"
  then obtain st where l: "period_loop (last data) data initial_scan = Inr st"
    using Cons by (auto simp: period_totals_def split: sum.splits)
  have n: "0 \<le> active_duration_total st \<and> 0 \<le> resting_duration_total st"
    using period_loop_nonneg[OF l] by (simp add: initial_scan_def)
  show ?thesis
  proof (cases "current_period_start st")
    case None
    with h l Cons n show ?thesis by (auto simp: period_totals_def)
  next
    case (Some start)
    with h l Cons obtain st1 where c: "close_period start (time (last data)) st = Inr st1"
      and e: "a = active_duration_total st1" "r = resting_duration_total st1"
      by (auto simp: period_totals_def split: sum.splits)
    from close_period_nonneg[OF c] n e show ?thesis by simp
  qed
qed

lemma close_period_valid:
  assumes "valid_hms s" "valid_hms e"
  shows "\<exists>st'. close_period s e st = Inr st' \<and>
           current_period_start st' = current_period_start st"
proof -
  obtain d where "calculate_duration s e = Inr d"
    using calculate_duration_valid[OF assms] by blast
  then show ?thesis by (simp add: close_period_def)
qed

lemma period_loop_valid:
  "\<forall>x \<in> set data. valid_hms (time x) \<Longrightarrow> valid_hms (time prev) \<Longrightarrow>
   (\<forall>s. current_period_start st = Some s \<longrightarrow> valid_hms s) \<Longrightarrow>
   \<exists>st'. period_loop prev data st = Inr st' \<and>
     (\<forall>s. current_period_start st' = Some s \<longrightarrow> valid_hms s)"
proof (induction data arbitrary: prev st)
  case Nil
  then show ?case by simp
next
  case (Cons entry rest)
  have ve: "valid_hms (time entry)" and vr: "\<forall>x \<in> set rest. valid_hms (time x)"
    using Cons.prems(1) by simp_all
  show ?case
  proof (cases "current_period_type st \<noteq> Some (classify entry)")
    case False
    with Cons.IH[OF vr ve Cons.prems(3)] show ?thesis by (simp add: Let_def)
  next
    case True
    let ?upd = "\<lambda>s. s\<lparr>current_period_start := Some (time entry),
                    current_period_type := Some (classify entry)\<rparr>"
    have inv: "\<And>s0. \<forall>s. current_period_start (?upd s0) = Some s \<longrightarrow> valid_hms s"
      using ve by simp
    show ?thesis
    proof (cases "current_period_start st")
      case None
      from Cons.IH[OF vr ve inv[of st]] True None show ?thesis by (simp add: Let_def)
    next
      case (Some start)
      with Cons.prems(3) have "valid_hms start" by simp
      from close_period_valid[OF this Cons.prems(2), of st] obtain st1 where
        c: "close_period start (time prev) st = Inr st1" by blast
      from Cons.IH[OF vr ve inv[of st1]] True Some c show ?thesis by (simp add: Let_def)
    qed
  qed
qed

lemma period_totals_valid:
  assumes "\<forall>x \<in> set data. valid_hms (time x)"
  shows "\<exists>act rest. period_totals data = Inr (act, rest)"
proof (cases data)
  case Nil
  then show ?thesis by (simp add: period_totals_def)
next
  case (Cons x xs)
  then have vl: "valid_hms (time (last data))" using assms by (metis last_in_set list.discI)
  have "\<forall>s. current_period_start initial_scan = Some s \<longrightarrow> valid_hms s"
    by (simp add: initial_scan_def)
  from period_loop_valid[OF assms vl this] obtain st where
    l: "period_loop (last data) data initial_scan = Inr st" and
    i: "\<forall>s. current_period_start st = Some s \<longrightarrow> valid_hms s" by blast
  show ?thesis
  proof (cases "current_period_start st")
    case None
    with l Cons show ?thesis by (simp add: period_totals_def)
  next
    case (Some start)
    with i have "valid_hms start" by simp
    from close_period_valid[OF this vl, of st] obtain st1 where
      "close_period start (time (last data)) st = Inr st1" by blast
    with l Cons Some show ?thesis by (simp add: period_totals_def)
  qed
qed

text \<open>
  Claim C9. For every pair of valid \<^verbatim>\<open>"HH:MM:SS"\<close> strings \<^verbatim>\<open>calculate_duration\<close>
  returns a value that is at least 0 and strictly less than 86400 seconds; consequently
  the active and resting totals that \<^verbatim>\<open>calculate_period_durations\<close> produces are never
  negative, and on samples whose times are all valid it does produce them.
\<close>

theorem duration_bounds:
  "(valid_hms a \<and> valid_hms b \<longrightarrow>
      (\<exists>d. calculate_duration a b = Inr d \<and> 0 \<le> d \<and> d < 86400)) \<and>
   (period_totals data = Inr (act, rest) \<longrightarrow> 0 \<le> act \<and> 0 \<le> rest) \<and>
   ((\<forall>x \<in> set data'. valid_hms (time x)) \<longrightarrow>
      (\<exists>act' rest'. period_totals data' = Inr (act', rest') \<and> 0 \<le> act' \<and> 0 \<le> rest'))"
proof -
  have p1: "\<exists>d. calculate_duration a b = Inr d \<and> 0 \<le> d \<and> d < 86400"
    if h: "valid_hms a \<and> valid_hms b"
  proof -
    obtain d where "calculate_duration a b = Inr d"
      using h calculate_duration_valid by blast
    then show ?thesis using calculate_duration_range by blast
  qed
  have p2: "0 \<le> act \<and> 0 \<le> rest" if "period_totals data = Inr (act, rest)"
    using that by (rule period_totals_nonneg)
  have p3: "\<exists>act' rest'. period_totals data' = Inr (act', rest') \<and> 0 \<le> act' \<and> 0 \<le> rest'"
    if h: "\<forall>x \<in> set data'. valid_hms (time x)"
  proof -
    obtain act' rest' where "period_totals data' = Inr (act', rest')"
      using h period_totals_valid by blast
    then show ?thesis using period_totals_nonneg by blast
  qed
  from p1 p2 p3 show ?thesis by blast
qed

theorem duration_bounds_witness:
  "(\<exists>d. calculate_duration ''23:30:00'' ''00:10:00'' = Inr d \<and> 0 \<le> d \<and> d < 86400) \<and>
   period_totals [\<lparr>time = ''08:00:00'', bpm_value = 100\<rparr>,
                  \<lparr>time = ''08:00:01'', bpm_value = 100\<rparr>,
                  \<lparr>time = ''08:00:05'', bpm_value = 120\<rparr>,
                  \<lparr>time = ''08:00:07'', bpm_value = 120\<rparr>] = Inr (2, 1) \<and>
   (0::int) \<le> 2 \<and> (0::int) \<le> 1 \<and>
   (\<exists>act' rest'. period_totals [\<lparr>time = ''23:59:59'', bpm_value = 130\<rparr>,
                  \<lparr>time = ''00:00:04'', bpm_value = 131\<rparr>] = Inr (act', rest')
       \<and> 0 \<le> act' \<and> 0 \<le> rest')"
proof -
  have v: "valid_hms ''23:30:00''" "valid_hms ''00:10:00''" "valid_hms ''23:59:59''"
    "valid_hms ''00:00:04''"
    by (simp_all add: valid_hms_def is_digit_def digits_val_def digit_val_def)
  have t: "period_totals [\<lparr>time = ''08:00:00'', bpm_value = 100\<rparr>,
                  \<lparr>time = ''08:00:01'', bpm_value = 100\<rparr>,
                  \<lparr>time = ''08:00:05'', bpm_value = 120\<rparr>,
                  \<lparr>time = ''08:00:07'', bpm_value = 120\<rparr>] = Inr (2, 1)"
    by (simp add: period_totals_def initial_scan_def classify_def close_period_def time_eval)
  show ?thesis
    using duration_bounds [of "''23:30:00''" "''00:10:00''"
        "[\<lparr>time = ''08:00:00'', bpm_value = 100\<rparr>,
                  \<lparr>time = ''08:00:01'', bpm_value = 100\<rparr>,
                  \<lparr>time = ''08:00:05'', bpm_value = 120\<rparr>,
                  \<lparr>time = ''08:00:07'', bpm_value = 120\<rparr>]" 2 1
        "[\<lparr>time = ''23:59:59'', bpm_value = 130\<rparr>,
                  \<lparr>time = ''00:00:04'', bpm_value = 131\<rparr>]"]
    by (simp add: v t)
qed

section \<open>Properties of the rate-limit bookkeeping\<close>

lemmas int_eval = py_int_def int_of_string_def strip_def is_space_def decimal_literal_def
  is_digit_def digits_val_def digit_val_def

lemmas retriever_eval = get_data_def get_data_loop.simps initial_retriever_def Let_def
  update_rate_limit_def header_get_def initial_rate_limit_def time_sleep_def

lemmas date_eval = strptime_Ymd_def year_field_def month_field_def day_field_def month_lengths_def
  is_leap_def toordinal_def is_digit_def digits_val_def digit_val_def

text \<open>
  Claim C8. For every call of \<^verbatim>\<open>update_rate_limit\<close> each of the three fields (limit,
  remaining, reset) is set to the value of its header when the header is present and keeps
  exactly its previous value when the header is absent.
\<close>

theorem update_rate_limit_frame:
  "(hs ''fitbit-rate-limit-limit'' = Some l \<longrightarrow> limit (update_rate_limit hs rl) = PyStr l) \<and>
   (hs ''fitbit-rate-limit-limit'' = None \<longrightarrow> limit (update_rate_limit hs rl) = limit rl) \<and>
   (hs ''fitbit-rate-limit-remaining'' = Some r \<longrightarrow> remaining (update_rate_limit hs rl) = PyStr r) \<and>
   (hs ''fitbit-rate-limit-remaining'' = None \<longrightarrow> remaining (update_rate_limit hs rl) = remaining rl) \<and>
   (hs ''fitbit-rate-limit-reset'' = Some t \<longrightarrow> reset (update_rate_limit hs rl) = PyStr t) \<and>
   (hs ''fitbit-rate-limit-reset'' = None \<longrightarrow> reset (update_rate_limit hs rl) = reset rl)"
  by (simp add: update_rate_limit_def header_get_def)

theorem update_rate_limit_frame_witness:
  "update_rate_limit [''fitbit-rate-limit-remaining'' \<mapsto> ''97'']
     \<lparr> limit = PyStr ''150'', remaining = PyStr ''98'', reset = PyStr ''1800'' \<rparr> =
   \<lparr> limit = PyStr ''150'', remaining = PyStr ''97'', reset = PyStr ''1800'' \<rparr> \<and>
   update_rate_limit [''fitbit-rate-limit-limit'' \<mapsto> ''150'', ''fitbit-rate-limit-reset'' \<mapsto> ''12'']
     initial_rate_limit =
   \<lparr> limit = PyStr ''150'', remaining = PyInt 150, reset = PyStr ''12'' \<rparr>"
proof -
  let ?h1 = "[''fitbit-rate-limit-remaining'' \<mapsto> ''97'']"
  let ?r1 = "\<lparr> limit = PyStr ''150'', remaining = PyStr ''98'', reset = PyStr ''1800'' \<rparr>"
  let ?h2 = "[''fitbit-rate-limit-limit'' \<mapsto> ''150'', ''fitbit-rate-limit-reset'' \<mapsto> ''12'']"
  have "limit (update_rate_limit ?h1 ?r1) = PyStr ''150'' \<and>
        remaining (update_rate_limit ?h1 ?r1) = PyStr ''97'' \<and>
        reset (update_rate_limit ?h1 ?r1) = PyStr ''1800''"
    using update_rate_limit_frame [of ?h1 "''0''" ?r1 "''97''" "''0''"] by simp
  moreover have "limit (update_rate_limit ?h2 initial_rate_limit) = PyStr ''150'' \<and>
        remaining (update_rate_limit ?h2 initial_rate_limit) = PyInt 150 \<and>
        reset (update_rate_limit ?h2 initial_rate_limit) = PyStr ''12''"
    using update_rate_limit_frame [of ?h2 "''150''" initial_rate_limit "''0''" "''12''"]
    by (simp add: initial_rate_limit_def)
  ultimately show ?thesis by (simp add: rate_limit_dict.equality)
qed

section \<open>Properties of the fetch loop\<close>

lemma get_data_loop_all_fail:
  assumes bf: "0 \<le> bf"
  shows "nat (retries - int attempt) = n \<Longrightarrow>
     (\<forall>i<n. status_code (net (requests_sent st + i)) \<noteq> 200 \<and>
            status_code (net (requests_sent st + i)) \<noteq> 429 \<and>
            (\<exists>m. log_error_details (body (net (requests_sent st + i))) = Inr m)) \<Longrightarrow>
     \<exists>st'. get_data_loop net rt retries bf attempt st = (Inr JNull, st') \<and>
        failed_requests st' = (failed_requests st)(rt := failed_requests st rt + int n) \<and>
        total_requests st' = total_requests st + int n \<and>
        requests_sent st' = requests_sent st + n \<and>
        successful_requests st' = successful_requests st"
proof (induction n arbitrary: attempt st)
  case 0
  then have "\<not> int attempt < retries" by simp
  then show ?case by (simp add: get_data_loop.simps)
next
  case (Suc n)
  from Suc.prems(1) have lt: "int attempt < retries" by linarith
  let ?resp = "net (requests_sent st)"
  from Suc.prems(2)[rule_format, of 0] obtain m where
    s: "status_code ?resp \<noteq> 200" "status_code ?resp \<noteq> 429" and
    lg: "log_error_details (body ?resp) = Inr m" by auto
  define st1 where "st1 = st\<lparr>requests_sent := requests_sent st + 1,
      rate_limit := update_rate_limit (headers ?resp) (rate_limit st)\<rparr>"
  define st3 where "st3 = st1\<lparr>slept := slept st1 @ [(of_nat attempt + 1) * bf],
      failed_requests := (failed_requests st1)(rt := failed_requests st1 rt + 1),
      total_requests := total_requests st1 + 1\<rparr>"
  have nn: "\<not> (of_nat attempt + 1) * bf < 0" using bf by (simp add: mult_nonneg_nonneg not_less)
  have step: "get_data_loop net rt retries bf attempt st =
      get_data_loop net rt retries bf (attempt + 1) st3"
    by (subst get_data_loop.simps)
       (simp add: lt s lg Let_def time_sleep_def nn st1_def st3_def)
  have n': "nat (retries - int (attempt + 1)) = n" using Suc.prems(1) by linarith
  have rs: "requests_sent st3 = requests_sent st + 1" by (simp add: st3_def st1_def)
  have cond: "\<forall>i<n. status_code (net (requests_sent st3 + i)) \<noteq> 200 \<and>
            status_code (net (requests_sent st3 + i)) \<noteq> 429 \<and>
            (\<exists>m. log_error_details (body (net (requests_sent st3 + i))) = Inr m)"
  proof (intro allI impI)
    fix i assume "i < n"
    then have "Suc i < Suc n" by simp
    from Suc.prems(2)[rule_format, OF this] show
      "status_code (net (requests_sent st3 + i)) \<noteq> 200 \<and>
            status_code (net (requests_sent st3 + i)) \<noteq> 429 \<and>
            (\<exists>m. log_error_details (body (net (requests_sent st3 + i))) = Inr m)"
      by (simp add: rs)
  qed
  from Suc.IH[OF n' cond] obtain st' where
    r: "get_data_loop net rt retries bf (attempt + 1) st3 = (Inr JNull, st')" and
    f: "failed_requests st' = (failed_requests st3)(rt := failed_requests st3 rt + int n)" and
    t: "total_requests st' = total_requests st3 + int n" and
    q: "requests_sent st' = requests_sent st3 + n" and
    u: "successful_requests st' = successful_requests st3" by blast
  have "failed_requests st' = (failed_requests st)(rt := failed_requests st rt + int (Suc n))"
    by (simp add: f st3_def st1_def add.assoc)
  moreover have "total_requests st' = total_requests st + int (Suc n)"
    by (simp add: t st3_def st1_def)
  moreover have "requests_sent st' = requests_sent st + Suc n"
    by (simp add: q rs)
  moreover have "successful_requests st' = successful_requests st"
    by (simp add: u st3_def st1_def)
  ultimately show ?case using step r by (intro exI[of _ st']) (simp only: simp_thms)
qed

text \<open>
  Claim C2, as stated: when all three attempts of a fetch with \<^verbatim>\<open>retries=3\<close> get a status
  that is neither 200 nor 429, \<^verbatim>\<open>get_data\<close> returns \<^verbatim>\<open>None\<close> and the failure counter of
  the resource goes up by exactly 1. The code counts every failed attempt: against a server
  that always answers 500 the call returns \<^verbatim>\<open>None\<close> and the counter goes from 0 to 3.
\<close>

theorem get_data_exhaustion_counterexample:
  "fst (get_data server_500 rate 3 (3 / 2) initial_retriever) = Inr JNull \<and>
   failed_requests initial_retriever rate = 0 \<and>
   failed_requests (snd (get_data server_500 rate 3 (3 / 2) initial_retriever)) rate = 3 \<and>
   failed_requests (snd (get_data server_500 rate 3 (3 / 2) initial_retriever)) rate \<noteq>
     failed_requests initial_retriever rate + 1"
  by (simp add: retriever_eval server_500_def)

text \<open>
  Claim C2, amended: when all three attempts of a fetch with \<^verbatim>\<open>retries=3\<close> get a status
  that is neither 200 nor 429 (and a body from which \<^verbatim>\<open>log_error_details\<close> can build its
  message, and the backoff factor is not negative), \<^verbatim>\<open>get_data\<close> returns \<^verbatim>\<open>None\<close> and
  the failure counter of that resource goes up by exactly 3, once per failed attempt; the
  failure counters of the other resources do not change.
\<close>

theorem get_data_exhaustion:
  assumes "\<forall>i<3. status_code (net (requests_sent st + i)) \<noteq> 200 \<and>
            status_code (net (requests_sent st + i)) \<noteq> 429 \<and>
            (\<exists>m. log_error_details (body (net (requests_sent st + i))) = Inr m)"
    and "0 \<le> backoff_factor"
  shows "fst (get_data net resource_type 3 backoff_factor st) = Inr JNull \<and>
         failed_requests (snd (get_data net resource_type 3 backoff_factor st)) resource_type =
           failed_requests st resource_type + 3 \<and>
         (\<forall>r. r \<noteq> resource_type \<longrightarrow>
            failed_requests (snd (get_data net resource_type 3 backoff_factor st)) r =
              failed_requests st r)"
proof -
  have "nat (3 - int 0) = 3" by simp
  from get_data_loop_all_fail[OF assms(2) this, of net st resource_type] assms(1)
  obtain st' where
    "get_data_loop net resource_type 3 backoff_factor 0 st = (Inr JNull, st')"
    "failed_requests st' =
       (failed_requests st)(resource_type := failed_requests st resource_type + int 3)"
    by blast
  then show ?thesis by (simp add: get_data_def)
qed

theorem get_data_exhaustion_witness:
  "fst (get_data server_500 heart 3 (3 / 2) initial_retriever) = Inr JNull \<and>
   failed_requests (snd (get_data server_500 heart 3 (3 / 2) initial_retriever)) heart = 3 \<and>
   failed_requests (snd (get_data server_500 heart 3 (3 / 2) initial_retriever)) steps = 0"
proof -
  have h: "\<forall>i<3. status_code (server_500 (requests_sent initial_retriever + i)) \<noteq> 200 \<and>
            status_code (server_500 (requests_sent initial_retriever + i)) \<noteq> 429 \<and>
            (\<exists>m. log_error_details (body (server_500 (requests_sent initial_retriever + i))) = Inr m)"
    by (simp add: server_500_def)
  have b: "(0::rat) \<le> 3 / 2" by simp
  from get_data_exhaustion[OF h b, of heart] show ?thesis
    by (simp add: initial_retriever_def)
qed

lemma time_sleep_cases:
  "time_sleep d st = Inl ValueError \<or> time_sleep d st = Inr (st\<lparr>slept := slept st @ [d]\<rparr>)"
  by (simp add: time_sleep_def)

lemma log_error_details_no_exit: "log_error_details b \<noteq> Inl (SystemExit c)"
proof -
  have m: "\<And>j. message_of j \<noteq> Inl (SystemExit c)"
    subgoal for j by (cases j) (auto split: option.splits)
    done
  have ms: "\<And>js. messages_of js \<noteq> Inl (SystemExit c)"
    subgoal for js by (induction js) (auto split: sum.splits simp: m)
    done
  have e: "\<And>j. errors_message j \<noteq> Inl (SystemExit c)"
    subgoal for j by (cases j) (auto split: sum.splits simp: ms join_messages_def)
    done
  show ?thesis
  proof (cases b)
    case None
    then show ?thesis by simp
  next
    case (Some j)
    then show ?thesis by (cases j) (auto split: option.splits simp: e)
  qed
qed

lemma py_int_no_exit: "py_int v \<noteq> Inl (SystemExit c)"
  by (auto simp: py_int_def int_of_string_def Let_def split: pyval.splits)

text \<open>One round of the loop, by the status of the response.\<close>

lemma get_data_loop_stop:
  "\<not> int attempt < retries \<Longrightarrow> get_data_loop net rt retries bf attempt st = (Inr JNull, st)"
  by (subst get_data_loop.simps) simp

lemma get_data_loop_cases:
  assumes "int attempt < retries"
  shows "(\<exists>e st'. get_data_loop net rt retries bf attempt st = (Inl e, st') \<and> e \<noteq> SystemExit c \<and>
            requests_sent st' = requests_sent st + 1 \<and>
            failed_requests st' = failed_requests st) \<or>
         (\<exists>j st'. get_data_loop net rt retries bf attempt st = (Inr j, st') \<and>
            status_code (net (requests_sent st)) = 200 \<and>
            requests_sent st' = requests_sent st + 1 \<and> failed_requests st' = failed_requests st) \<or>
         (\<exists>st'. get_data_loop net rt retries bf attempt st =
                 get_data_loop net rt retries bf (attempt + 1) st' \<and>
               requests_sent st' = requests_sent st + 1 \<and>
               status_code (net (requests_sent st)) \<noteq> 200 \<and>
               (status_code (net (requests_sent st)) = 429 \<longrightarrow> failed_requests st' = failed_requests st))"
proof -
  let ?resp = "net (requests_sent st)"
  define st1 where "st1 = st\<lparr>requests_sent := requests_sent st + 1,
      rate_limit := update_rate_limit (headers ?resp) (rate_limit st)\<rparr>"
  consider (ok) "status_code ?resp = 200" | (throttled) "status_code ?resp = 429"
    | (other) "status_code ?resp \<noteq> 200" "status_code ?resp \<noteq> 429" by blast
  then show ?thesis
  proof cases
    case ok
    then show ?thesis
      by (subst get_data_loop.simps, subst get_data_loop.simps)
         (auto simp: assms Let_def split: option.splits)
  next
    case throttled
    show ?thesis
    proof (cases "py_int (reset (rate_limit st1))")
      case (Inl e)
      then show ?thesis using py_int_no_exit[of "reset (rate_limit st1)" c]
        by (subst get_data_loop.simps)
           (auto simp: assms throttled Let_def st1_def)
    next
      case (Inr reset_time)
      define d where "d = (if reset_time > 0 then of_int reset_time + 1
                          else (of_nat attempt + 1) * bf)"
      from time_sleep_cases[of d st1] show ?thesis
      proof
        assume "time_sleep d st1 = Inl ValueError"
        then show ?thesis using Inr
          by (subst get_data_loop.simps)
             (auto simp: assms throttled Let_def st1_def d_def split: if_splits)
      next
        assume a: "time_sleep d st1 = Inr (st1\<lparr>slept := slept st1 @ [d]\<rparr>)"
        have eq: "get_data_loop net rt retries bf attempt st =
              get_data_loop net rt retries bf (attempt + 1) (st1\<lparr>slept := slept st1 @ [d]\<rparr>)"
          using Inr a
          by (subst get_data_loop.simps)
             (auto simp: assms throttled Let_def st1_def d_def split: if_splits)
        show ?thesis
          by (rule disjI2, rule disjI2, rule exI[of _ "st1\<lparr>slept := slept st1 @ [d]\<rparr>"])
             (simp add: eq throttled st1_def)
      qed
    qed
  next
    case other
    show ?thesis
    proof (cases "log_error_details (body ?resp)")
      case (Inl e)
      then show ?thesis using log_error_details_no_exit[of "body ?resp" c]
        by (subst get_data_loop.simps)
           (auto simp: assms other Let_def)
    next
      case (Inr msg)
      define d where "d = (of_nat attempt + 1) * bf"
      from time_sleep_cases[of d st1] show ?thesis
      proof
        assume "time_sleep d st1 = Inl ValueError"
        then show ?thesis using Inr
          by (subst get_data_loop.simps)
             (auto simp: assms other Let_def st1_def d_def)
      next
        assume a: "time_sleep d st1 = Inr (st1\<lparr>slept := slept st1 @ [d]\<rparr>)"
        let ?st3 = "st1\<lparr>slept := slept st1 @ [d],
           failed_requests := (failed_requests st1)(rt := failed_requests st1 rt + 1),
           total_requests := total_requests st1 + 1\<rparr>"
        have eq: "get_data_loop net rt retries bf attempt st =
              get_data_loop net rt retries bf (attempt + 1) ?st3"
          using Inr a
          by (subst get_data_loop.simps)
             (auto simp: assms other Let_def st1_def d_def)
        show ?thesis
          by (rule disjI2, rule disjI2, rule exI[of _ ?st3])
             (simp add: eq other st1_def)
      qed
    qed
  qed
qed

lemma get_data_loop_invariants:
  "nat (retries - int attempt) = n \<Longrightarrow>
   fst (get_data_loop net rt retries bf attempt st) \<noteq> Inl (SystemExit c) \<and>
   requests_sent st \<le> requests_sent (snd (get_data_loop net rt retries bf attempt st)) \<and>
   (int attempt < retries \<longrightarrow>
      requests_sent st < requests_sent (snd (get_data_loop net rt retries bf attempt st))) \<and>
   ((\<forall>k. status_code (net k) = 200 \<or> status_code (net k) = 429) \<longrightarrow>
      failed_requests (snd (get_data_loop net rt retries bf attempt st)) = failed_requests st)"
proof (induction n arbitrary: attempt st)
  case 0
  then have "\<not> int attempt < retries" by simp
  then show ?case by (simp add: get_data_loop_stop)
next
  case (Suc n)
  then have lt: "int attempt < retries" by linarith
  have n': "nat (retries - int (attempt + 1)) = n" using Suc.prems by linarith
  from get_data_loop_cases[OF lt, of net rt bf st c] show ?case
  proof (elim disjE exE conjE)
    fix e st'
    assume "get_data_loop net rt retries bf attempt st = (Inl e, st')" "e \<noteq> SystemExit c"
      "requests_sent st' = requests_sent st + 1"
      "failed_requests st' = failed_requests st"
    then show ?thesis by auto
  next
    fix j st'
    assume "get_data_loop net rt retries bf attempt st = (Inr j, st')"
      "requests_sent st' = requests_sent st + 1" "failed_requests st' = failed_requests st"
    then show ?thesis by auto
  next
    fix st'
    assume a: "get_data_loop net rt retries bf attempt st =
                 get_data_loop net rt retries bf (attempt + 1) st'"
      "requests_sent st' = requests_sent st + 1"
      "status_code (net (requests_sent st)) \<noteq> 200"
      "status_code (net (requests_sent st)) = 429 \<longrightarrow> failed_requests st' = failed_requests st"
    from Suc.IH[OF n', of st'] a show ?thesis
      by (auto simp: less_Suc_eq_le)
  qed
qed

text \<open>
  Claim C3, as stated: on status 429 the wait is always \<open>max(reset, 0) + 1\<close> seconds, never
  the backoff formula. The code waits \<open>reset + 1\<close> seconds only when \<open>reset\<close> is positive;
  otherwise it waits \<open>(attempt + 1) * backoff_factor\<close>. Against a server that always
  answers 429 with the reset header at 0 the three waits are 1.5, 3 and 4.5 seconds, not 1.
\<close>

theorem get_data_429_counterexample:
  "slept (snd (get_data (server_429_reset ''0'') rate 3 (3 / 2) initial_retriever)) = [3 / 2, 3, 9 / 2] \<and>
   py_int (reset (rate_limit (snd (get_data (server_429_reset ''0'') rate 3 (3 / 2) initial_retriever)))) = Inr 0 \<and>
   (3 / 2 :: rat) \<noteq> of_int (max 0 0) + 1"
  by (simp add: retriever_eval server_429_reset_def int_eval)

text \<open>
  Claim C3, amended: for every attempt that receives status 429, with \<open>reset\<close> read from the
  rate-limit dictionary after it was updated from the response: if \<open>reset\<close> is positive the
  fetcher sleeps exactly \<open>max(reset, 0) + 1\<close> seconds, otherwise it sleeps
  \<open>(attempt + 1) * backoff_factor\<close> seconds; in both cases it goes on with the attempt
  counter incremented and with nothing else changed than the request count, the rate-limit
  dictionary and the record of sleeps, so the failure counter is not incremented. In a
  whole call in which every response is a 200 or a 429 the failure counters do not change.
\<close>

theorem get_data_429_step:
  assumes "int attempt < retries"
    and "status_code (net (requests_sent st)) = 429"
    and "py_int (reset (update_rate_limit (headers (net (requests_sent st))) (rate_limit st))) =
           Inr reset_time"
    and "0 \<le> backoff_factor"
  shows "get_data_loop net resource_type retries backoff_factor attempt st =
           get_data_loop net resource_type retries backoff_factor (attempt + 1)
             (st\<lparr>requests_sent := requests_sent st + 1,
                 rate_limit := update_rate_limit (headers (net (requests_sent st))) (rate_limit st),
                 slept := slept st @
                   [if reset_time > 0 then of_int (max reset_time 0) + 1
                    else (of_nat attempt + 1) * backoff_factor]\<rparr>) \<and>
         ((\<forall>k. status_code (net k) = 200 \<or> status_code (net k) = 429) \<longrightarrow>
            failed_requests (snd (get_data_loop net resource_type retries backoff_factor attempt st)) =
              failed_requests st)"
proof
  have nn: "\<not> (of_nat attempt + 1) * backoff_factor < 0"
    using assms(4) by (simp add: mult_nonneg_nonneg not_less)
  have nn2: "reset_time > 0 \<Longrightarrow> \<not> (of_int reset_time + 1 :: rat) < 0" by simp
  show "get_data_loop net resource_type retries backoff_factor attempt st =
           get_data_loop net resource_type retries backoff_factor (attempt + 1)
             (st\<lparr>requests_sent := requests_sent st + 1,
                 rate_limit := update_rate_limit (headers (net (requests_sent st))) (rate_limit st),
                 slept := slept st @
                   [if reset_time > 0 then of_int (max reset_time 0) + 1
                    else (of_nat attempt + 1) * backoff_factor]\<rparr>)"
    by (subst get_data_loop.simps)
       (simp add: assms(1,2,3) Let_def time_sleep_def nn nn2 max_def)
next
  show "(\<forall>k. status_code (net k) = 200 \<or> status_code (net k) = 429) \<longrightarrow>
            failed_requests (snd (get_data_loop net resource_type retries backoff_factor attempt st)) =
              failed_requests st"
    using get_data_loop_invariants[of retries attempt "nat (retries - int attempt)" net
        resource_type backoff_factor st 0]
    by simp
qed

theorem get_data_429_step_witness:
  "get_data_loop (server_429_reset ''2'') rate 3 (3 / 2) 0 initial_retriever =
     get_data_loop (server_429_reset ''2'') rate 3 (3 / 2) 1
       (initial_retriever\<lparr>requests_sent := 1,
           rate_limit := initial_rate_limit\<lparr>reset := PyStr ''2''\<rparr>,
           slept := [3]\<rparr>) \<and>
   failed_requests (snd (get_data_loop (server_429_reset ''2'') rate 3 (3 / 2) 0 initial_retriever)) =
     failed_requests initial_retriever"
proof -
  have a: "int 0 < 3" by simp
  have s: "status_code (server_429_reset ''2'' (requests_sent initial_retriever)) = 429"
    by (simp add: server_429_reset_def)
  have p: "py_int (reset (update_rate_limit
             (headers (server_429_reset ''2'' (requests_sent initial_retriever)))
             (rate_limit initial_retriever))) = Inr 2"
    by (simp add: server_429_reset_def update_rate_limit_def header_get_def int_eval)
  have b: "(0::rat) \<le> 3 / 2" by simp
  have k: "\<forall>k. status_code (server_429_reset ''2'' k) = 200 \<or>
               status_code (server_429_reset ''2'' k) = 429"
    by (simp add: server_429_reset_def)
  note t = get_data_429_step[where attempt = 0 and retries = 3 and net = "server_429_reset ''2''"
      and st = initial_retriever and reset_time = 2 and backoff_factor = "3 / 2"
      and resource_type = rate, OF a s p b]
  from t[THEN conjunct1] have e1:
    "get_data_loop (server_429_reset ''2'') rate 3 (3 / 2) 0 initial_retriever =
     get_data_loop (server_429_reset ''2'') rate 3 (3 / 2) 1
       (initial_retriever\<lparr>requests_sent := 1,
           rate_limit := initial_rate_limit\<lparr>reset := PyStr ''2''\<rparr>,
           slept := [3]\<rparr>)"
    by (simp add: server_429_reset_def update_rate_limit_def header_get_def
        initial_retriever_def initial_rate_limit_def)
  from t[THEN conjunct2] k have e2:
    "failed_requests (snd (get_data_loop (server_429_reset ''2'') rate 3 (3 / 2) 0 initial_retriever)) =
     failed_requests initial_retriever"
    by blast
  from e1 e2 show ?thesis by (rule conjI)
qed

section \<open>Properties of the admission control\<close>

lemma get_data_props:
  "fst (get_data net r 3 bf st) \<noteq> Inl (SystemExit c) \<and>
   requests_sent st < requests_sent (snd (get_data net r 3 bf st))"
  using get_data_loop_invariants[of 3 0 3 net r bf st c] by (simp add: get_data_def)

lemma fetch_resources_props:
  "fst (fetch_resources net rs data st) \<noteq> Inl (SystemExit c) \<and>
   requests_sent st \<le> requests_sent (snd (fetch_resources net rs data st)) \<and>
   (rs \<noteq> [] \<longrightarrow> requests_sent st < requests_sent (snd (fetch_resources net rs data st)))"
proof (induction rs arbitrary: data st)
  case Nil
  then show ?case by simp
next
  case (Cons r rs)
  obtain res st' where g: "get_data net r 3 (3 / 2) st = (res, st')" by (cases "get_data net r 3 (3 / 2) st")
  from get_data_props[of net r "3 / 2" st c] g have
    p: "res \<noteq> Inl (SystemExit c)" "requests_sent st < requests_sent st'" by simp_all
  show ?case
  proof (cases res)
    case (Inl e)
    with g p show ?thesis by simp
  next
    case (Inr daily_data)
    define data' where "data' = (if truthy daily_data
             then data\<lparr>payloads := (payloads data)(r := payloads data r @ [daily_data])\<rparr>
             else data)"
    have eq: "fetch_resources net (r # rs) data st = fetch_resources net rs data' st'"
      using g Inr by (simp add: data'_def)
    from Cons.IH[of data' st'] have
      ih1: "fst (fetch_resources net rs data' st') \<noteq> Inl (SystemExit c)" and
      ih2: "requests_sent st' \<le> requests_sent (snd (fetch_resources net rs data' st'))"
      by simp_all
    show ?thesis unfolding eq using ih1 ih2 p(2) by simp
  qed
qed

lemma fetch_days_props:
  "fst (fetch_days net rs n data st) \<noteq> Inl (SystemExit c) \<and>
   requests_sent st \<le> requests_sent (snd (fetch_days net rs n data st)) \<and>
   (0 < n \<and> rs \<noteq> [] \<longrightarrow> requests_sent st < requests_sent (snd (fetch_days net rs n data st)))"
proof (induction n arbitrary: data st)
  case 0
  then show ?case by simp
next
  case (Suc n)
  obtain res st' where g: "fetch_resources net rs data st = (res, st')"
    by (cases "fetch_resources net rs data st")
  from fetch_resources_props[of net rs data st c] g have
    p: "res \<noteq> Inl (SystemExit c)" "requests_sent st \<le> requests_sent st'"
       "rs \<noteq> [] \<longrightarrow> requests_sent st < requests_sent st'" by simp_all
  show ?case
  proof (cases res)
    case (Inl e)
    with g p show ?thesis by simp
  next
    case (Inr data')
    have eq: "fetch_days net rs (Suc n) data st = fetch_days net rs n data' st'"
      using g Inr by simp
    from Suc.IH[of data' st'] have
      ih1: "fst (fetch_days net rs n data' st') \<noteq> Inl (SystemExit c)" and
      ih2: "requests_sent st' \<le> requests_sent (snd (fetch_days net rs n data' st'))"
      by simp_all
    show ?thesis unfolding eq using ih1 ih2 p(2,3) by auto
  qed
qed

text \<open>
  Claim C5. The pre-flight check computes the number of required requests as the number of
  resources (6) times the number of days of the inclusive date range, and the run is
  aborted by \<^verbatim>\<open>sys.exit(1)\<close>, with no request issued, exactly when that number exceeds the
  remaining quota; otherwise the run is not aborted and, for a range of at least one day,
  requests are issued. With 5 days (30 requests) a remaining quota of 20 aborts and one of
  30 proceeds.
\<close>

theorem admission_control:
  assumes "strptime_Ymd start_date = Inr s0" and "strptime_Ymd end_date = Inr e0"
    and "py_int (remaining (rate_limit st)) = Inr rem"
  shows "check_not_exceeded all_resources (e0 - s0 + 1) st =
           (if 6 * (e0 - s0 + 1) > rem then Inl (SystemExit 1) else Inr ()) \<and>
         (6 * (e0 - s0 + 1) > rem \<longrightarrow>
            get_all_data_for_date_ranges net dev start_date end_date st = (Inl (SystemExit 1), st)) \<and>
         (6 * (e0 - s0 + 1) \<le> rem \<longrightarrow>
            (\<forall>c. fst (get_all_data_for_date_ranges net dev start_date end_date st) \<noteq> Inl (SystemExit c)) \<and>
            (1 \<le> e0 - s0 + 1 \<longrightarrow>
               requests_sent st <
                 requests_sent (snd (get_all_data_for_date_ranges net dev start_date end_date st))))"
proof -
  have c: "check_not_exceeded all_resources (e0 - s0 + 1) st =
           (if 6 * (e0 - s0 + 1) > rem then Inl (SystemExit 1) else Inr ())"
    by (simp add: check_not_exceeded_def all_resources_def assms(3))
  have ne: "all_resources \<noteq> []" by (simp add: all_resources_def)
  have abort: "get_all_data_for_date_ranges net dev start_date end_date st = (Inl (SystemExit 1), st)"
    if "6 * (e0 - s0 + 1) > rem"
    using that by (simp add: get_all_data_for_date_ranges_def assms(1,2) c Let_def)
  have go: "get_all_data_for_date_ranges net dev start_date end_date st =
      fetch_days net all_resources (nat (e0 - s0 + 1)) \<lparr> payloads = (\<lambda>r. []), device_id = dev \<rparr> st"
    if "6 * (e0 - s0 + 1) \<le> rem"
    using that by (simp add: get_all_data_for_date_ranges_def assms(1,2) c Let_def)
  have proceed: "(\<forall>c. fst (get_all_data_for_date_ranges net dev start_date end_date st) \<noteq> Inl (SystemExit c)) \<and>
            (1 \<le> e0 - s0 + 1 \<longrightarrow>
               requests_sent st <
                 requests_sent (snd (get_all_data_for_date_ranges net dev start_date end_date st)))"
    if h: "6 * (e0 - s0 + 1) \<le> rem"
  proof (intro conjI allI impI)
    fix c
    show "fst (get_all_data_for_date_ranges net dev start_date end_date st) \<noteq> Inl (SystemExit c)"
      using fetch_days_props[of net all_resources "nat (e0 - s0 + 1)" _ st c] by (simp add: go[OF h])
  next
    assume "1 \<le> e0 - s0 + 1"
    then have "0 < nat (e0 - s0 + 1)" by simp
    then show "requests_sent st <
                 requests_sent (snd (get_all_data_for_date_ranges net dev start_date end_date st))"
      using fetch_days_props[of net all_resources "nat (e0 - s0 + 1)" _ st 0] ne
      by (simp add: go[OF h])
  qed
  from c abort proceed show ?thesis by blast
qed

theorem admission_control_witness:
  "get_all_data_for_date_ranges server_500 ''C1'' ''2024-01-01'' ''2024-01-05''
      (retriever_with_remaining ''20'') = (Inl (SystemExit 1), retriever_with_remaining ''20'') \<and>
   fst (get_all_data_for_date_ranges server_500 ''C1'' ''2024-01-01'' ''2024-01-05''
      (retriever_with_remaining ''30'')) \<noteq> Inl (SystemExit 1) \<and>
   requests_sent (retriever_with_remaining ''30'') <
     requests_sent (snd (get_all_data_for_date_ranges server_500 ''C1'' ''2024-01-01'' ''2024-01-05''
      (retriever_with_remaining ''30'')))"
proof -
  have d: "strptime_Ymd ''2024-01-01'' = Inr 738886" "strptime_Ymd ''2024-01-05'' = Inr 738890"
    by (simp_all add: date_eval)
  have r20: "py_int (remaining (rate_limit (retriever_with_remaining ''20''))) = Inr 20"
    by (simp add: retriever_with_remaining_def int_eval)
  have r30: "py_int (remaining (rate_limit (retriever_with_remaining ''30''))) = Inr 30"
    by (simp add: retriever_with_remaining_def int_eval)
  show ?thesis
    using admission_control[OF d r20, of server_500 "''C1''"]
      admission_control[OF d r30, of server_500 "''C1''"]
    by simp
qed

section \<open>Properties of the intraday average-rate extraction\<close>

lemmas str_eval = str_le_def night_window_def day_window_def is_complete_def

lemma min_str_in: "xs \<noteq> [] \<Longrightarrow> min_str xs \<in> set xs"
proof -
  have "foldl (\<lambda>a b. if str_less b a then b else a) a ys \<in> insert a (set ys)" for a ys
    by (induction ys arbitrary: a) (auto split: if_splits)
  from this[of "hd xs" "tl xs"] show "xs \<noteq> [] \<Longrightarrow> min_str xs \<in> set xs"
    by (cases xs) (auto simp: min_str_def)
qed

lemma max_str_in: "xs \<noteq> [] \<Longrightarrow> max_str xs \<in> set xs"
proof -
  have "foldl (\<lambda>a b. if str_less a b then b else a) a ys \<in> insert a (set ys)" for a ys
    by (induction ys arbitrary: a) (auto split: if_splits)
  from this[of "hd xs" "tl xs"] show "xs \<noteq> [] \<Longrightarrow> max_str xs \<in> set xs"
    by (cases xs) (auto simp: max_str_def)
qed

lemma window_duration_valid:
  assumes "\<forall>x \<in> set data. valid_hms (time x)"
  shows "\<exists>d. window_duration data = Inr d"
proof (cases "data = []")
  case True
  then show ?thesis by (simp add: window_duration_def)
next
  case False
  then have ne: "map time data \<noteq> []" by simp
  have "valid_hms (min_str (map time data))" "valid_hms (max_str (map time data))"
    using min_str_in[OF ne] max_str_in[OF ne] assms by auto
  from calculate_duration_valid[OF this] False show ?thesis
    by (auto simp: window_duration_def)
qed

lemma calculate_period_durations_valid:
  assumes "\<forall>x \<in> set data. valid_hms (time x)"
  shows "\<exists>a r. calculate_period_durations data = Inr (a, r)"
  using period_totals_valid[OF assms] by (auto simp: calculate_period_durations_def)

lemma build_record_valid:
  assumes "ds \<noteq> []" and v: "\<forall>x \<in> set ds. valid_hms (time x)"
  shows "\<exists>r. build_record dev date intra ds = Inr r"
proof -
  have "valid_hms (time (hd ds))" "valid_hms (time (last ds))"
    using assms by simp_all
  from calculate_duration_valid[OF this] obtain t where
    t: "calculate_duration (time (hd ds)) (time (last ds)) = Inr t" by blast
  have vd: "\<forall>x \<in> set (day_window ds). valid_hms (time x)"
    and vn: "\<forall>x \<in> set (night_window ds). valid_hms (time x)"
    using v by (simp_all add: day_window_def night_window_def)
  obtain dd where dd: "window_duration (day_window ds) = Inr dd"
    using window_duration_valid[OF vd] by blast
  obtain dn where dn: "window_duration (night_window ds) = Inr dn"
    using window_duration_valid[OF vn] by blast
  obtain a1 r1 where p1: "calculate_period_durations (day_window ds) = Inr (a1, r1)"
    using calculate_period_durations_valid[OF vd] by blast
  obtain a2 r2 where p2: "calculate_period_durations (night_window ds) = Inr (a2, r2)"
    using calculate_period_durations_valid[OF vn] by blast
  show ?thesis
    by (simp add: build_record_def Let_def t dd dn p1 p2)
qed

lemma build_record_active_means:
  assumes "build_record dev date intra ds = Inr r"
  shows "average_HeartValue_Activity r =
           py_round (mean_or (map bpm_value (filter (\<lambda>d. bpm_value d > 110) ds)) 120) 2 \<and>
         average_HeartValue_Night_Activity r =
           py_round (mean_or (map bpm_value (filter (\<lambda>d. bpm_value d > 110) (night_window ds))) 120) 2"
  using assms
  by (auto simp: build_record_def Let_def split: sum.splits prod.splits)

lemma py_round_120: "py_round 120 2 = 120"
  by (simp add: py_round_def py_round_int_def Let_def)

lemma no_active:
  "list_all (\<lambda>d. bpm_value d \<le> 110) ds \<Longrightarrow> filter (\<lambda>d. bpm_value d > 110) ds = []"
  by (induction ds) auto

lemma no_active_night:
  "list_all (\<lambda>d. bpm_value d \<le> 110) ds \<Longrightarrow>
   filter (\<lambda>d. bpm_value d > 110) (night_window ds) = []"
  by (induction ds) (auto simp: night_window_def)

text \<open>
  Claim C4. When every sample of the day window has a non-zero value, every sample of the
  night window has a non-zero value and no sample of the dataset exceeds 110, the record
  that is emitted has \<^verbatim>\<open>average_HeartValue_Activity\<close> and
  \<^verbatim>\<open>average_HeartValue_Night_Activity\<close> both exactly 120; and a record is emitted
  whenever the sample times are valid and the date can be read.
\<close>

theorem special_case_override:
  assumes "activities_heart_intraday entry = Some intra" and "dataset intra = Some ds"
    and "ds \<noteq> []"
    and "is_complete (day_window ds)" and "is_complete (night_window ds)"
    and "list_all (\<lambda>d. bpm_value d \<le> 110) ds"
  shows "(\<forall>r. extract_average_rate_entry dev entry = Inr (Some r) \<longrightarrow>
            average_HeartValue_Activity r = 120 \<and> average_HeartValue_Night_Activity r = 120) \<and>
         ((\<forall>x \<in> set ds. valid_hms (time x)) \<and> entry_date entry = Inr date \<longrightarrow>
            (\<exists>r. extract_average_rate_entry dev entry = Inr (Some r)))"
proof -
  have p1: "average_HeartValue_Activity r = 120 \<and> average_HeartValue_Night_Activity r = 120"
    if h: "extract_average_rate_entry dev entry = Inr (Some r)" for r
  proof -
    obtain d where "build_record dev d intra ds = Inr r"
      using h assms(1,2,3)
      by (auto simp: extract_average_rate_entry_def Let_def split: sum.splits)
    from build_record_active_means[OF this] show ?thesis
      by (simp add: no_active[OF assms(6)] no_active_night[OF assms(6)] mean_or_def py_round_120)
  qed
  have p2: "\<exists>r. extract_average_rate_entry dev entry = Inr (Some r)"
    if h: "(\<forall>x \<in> set ds. valid_hms (time x)) \<and> entry_date entry = Inr date"
  proof -
    obtain r where "build_record dev date intra ds = Inr r"
      using h build_record_valid[OF assms(3), of dev date intra] by blast
    then show ?thesis
      using assms(1,2,3) h by (simp add: extract_average_rate_entry_def)
  qed
  from p1 p2 show ?thesis by blast
qed

theorem special_case_override_witness:
  "\<exists>r. extract_average_rate_entry ''C1'' calm_day = Inr (Some r) \<and>
       average_HeartValue_Activity r = 120 \<and> average_HeartValue_Night_Activity r = 120"
proof -
  let ?ds = "[\<lparr> time = ''08:59:00'', bpm_value = 62 \<rparr>,
              \<lparr> time = ''09:00:00'', bpm_value = 75 \<rparr>,
              \<lparr> time = ''09:01:00'', bpm_value = 110 \<rparr>]"
  let ?intra = "\<lparr> dataset = Some ?ds, datasetInterval = Some 1, datasetType = Some ''minute'' \<rparr>"
  have a: "activities_heart_intraday calm_day = Some ?intra" by (simp add: calm_day_def)
  have b: "dataset ?intra = Some ?ds" by simp
  have c: "?ds \<noteq> []" by simp
  have d: "is_complete (day_window ?ds)" by (simp add: str_eval)
  have e: "is_complete (night_window ?ds)" by (simp add: str_eval)
  have f: "list_all (\<lambda>d. bpm_value d \<le> 110) ?ds" by simp
  have v: "\<forall>x \<in> set ?ds. valid_hms (time x)"
    by (simp add: valid_hms_def is_digit_def digits_val_def digit_val_def)
  have g: "entry_date calm_day = Inr ''2024-01-01''" by (simp add: entry_date_def calm_day_def)
  from special_case_override[OF a b c d e f, of "''C1''" "''2024-01-01''"] v g
  show ?thesis by blast
qed

text \<open>
  Claim C10. For a daily payload without the \<^verbatim>\<open>activities-heart-intraday\<close> key, or
  whose dataset is missing or empty, the loop body appends no record, so the list of
  records is the same as if that day were not in the input at all.
\<close>

theorem no_record_without_dataset:
  "(activities_heart_intraday entry = None \<longrightarrow> extract_average_rate_entry dev entry = Inr None) \<and>
   (activities_heart_intraday entry = Some intra \<and> (dataset intra = None \<or> dataset intra = Some []) \<longrightarrow>
      (\<forall>r. extract_average_rate_entry dev entry \<noteq> Inr (Some r)) \<and>
      (\<forall>d. entry_date entry = Inr d \<longrightarrow> extract_average_rate_entry dev entry = Inr None)) \<and>
   (extract_average_rate_entry dev entry = Inr None \<longrightarrow>
      extract_average_rate_data dev (before @ entry # after) =
        extract_average_rate_data dev (before @ after))"
proof -
  have p1: "extract_average_rate_entry dev entry = Inr None"
    if "activities_heart_intraday entry = None"
    using that by (simp add: extract_average_rate_entry_def)
  have p2: "(\<forall>r. extract_average_rate_entry dev entry \<noteq> Inr (Some r)) \<and>
      (\<forall>d. entry_date entry = Inr d \<longrightarrow> extract_average_rate_entry dev entry = Inr None)"
    if "activities_heart_intraday entry = Some intra \<and> (dataset intra = None \<or> dataset intra = Some [])"
    using that by (auto simp: extract_average_rate_entry_def split: sum.splits)
  have p3: "extract_average_rate_data dev (before @ entry # after) =
        extract_average_rate_data dev (before @ after)"
    if h: "extract_average_rate_entry dev entry = Inr None"
    by (induction before) (simp_all add: h split: sum.splits)
  from p1 p2 p3 show ?thesis by blast
qed

theorem no_record_without_dataset_witness:
  "extract_average_rate_entry ''C1'' day_without_intraday = Inr None \<and>
   extract_average_rate_entry ''C1'' day_with_empty_dataset = Inr None \<and>
   extract_average_rate_data ''C1'' ([calm_day] @ day_without_intraday # [day_with_empty_dataset]) =
     extract_average_rate_data ''C1'' ([calm_day] @ [day_with_empty_dataset]) \<and>
   extract_average_rate_data ''C1'' ([calm_day] @ day_with_empty_dataset # []) =
     extract_average_rate_data ''C1'' ([calm_day] @ [])"
proof -
  have a: "activities_heart_intraday day_without_intraday = None"
    by (simp add: day_without_intraday_def)
  let ?intra = "\<lparr> dataset = Some [], datasetInterval = Some 1, datasetType = Some ''minute'' \<rparr>"
  have b: "activities_heart_intraday day_with_empty_dataset = Some ?intra \<and>
           (dataset ?intra = None \<or> dataset ?intra = Some [])"
    by (simp add: day_with_empty_dataset_def)
  have d: "entry_date day_with_empty_dataset = Inr ''2024-01-03''"
    by (simp add: day_with_empty_dataset_def entry_date_def)
  note t1 = no_record_without_dataset[of day_without_intraday "''C1''" ?intra "[calm_day]"
      "[day_with_empty_dataset]"]
  note t2 = no_record_without_dataset[of day_with_empty_dataset "''C1''" ?intra "[calm_day]" "[]"]
  from t1 a have e1: "extract_average_rate_entry ''C1'' day_without_intraday = Inr None" by blast
  from t2 b d have e2: "extract_average_rate_entry ''C1'' day_with_empty_dataset = Inr None" by blast
  from t1 e1 t2 e2 show ?thesis by blast
qed

section \<open>Properties of the join\<close>

lemma select_rows_filter:
  "rows (select_rows (map P (rows df)) df) = filter P (rows df)"
proof -
  have "map snd (filter fst (zip (map P xs) xs)) = filter P xs" for xs :: "(string \<Rightarrow> cell) list"
    by (induction xs) simp_all
  then show ?thesis by (simp add: select_rows_def)
qed

lemma select_rows_filter_not:
  "rows (select_rows (map Not (map P (rows df))) df) = filter (\<lambda>r. \<not> P r) (rows df)"
proof -
  have "map snd (filter fst (zip (map Not (map P xs)) xs)) = filter (\<lambda>r. \<not> P r) xs"
    for xs :: "(string \<Rightarrow> cell) list"
    by (induction xs) simp_all
  then show ?thesis by (simp add: select_rows_def)
qed

lemma combined_table_logId:
  "combined_table merge data_frames = Some joined \<Longrightarrow> ''logId'' \<in> set (columns joined)"
  by (auto simp: combined_table_def Let_def split: if_splits)

text \<open>
  Claim C6. Whatever the outer join yields, once a \<^verbatim>\<open>logId\<close> column filled with nulls
  has been added when there was none, the two tables that are saved split the rows of the
  joined table: the complete table holds exactly the rows whose \<^verbatim>\<open>logId\<close> is present and
  the incomplete table exactly the rows whose \<^verbatim>\<open>logId\<close> is absent, every row is in
  exactly one of them, and the two row counts add up to the row count of the joined table.
\<close>

theorem partition_exhaustive_disjoint:
  assumes "combined_table merge data_frames = Some joined"
  shows "\<exists>complete incomplete.
     join_and_save_combined_data merge data_frames =
       [(''Merged.csv'', complete), (''Registros_Incompletos.csv'', incomplete)] \<and>
     ''logId'' \<in> set (columns joined) \<and>
     rows complete = filter (\<lambda>r. r ''logId'' \<noteq> Null) (rows joined) \<and>
     rows incomplete = filter (\<lambda>r. r ''logId'' = Null) (rows joined) \<and>
     length (rows complete) + length (rows incomplete) = length (rows joined) \<and>
     mset (rows complete) + mset (rows incomplete) = mset (rows joined) \<and>
     (\<forall>r \<in> set (rows joined). (r \<in> set (rows complete)) \<noteq> (r \<in> set (rows incomplete)))"
proof -
  let ?P = "\<lambda>r :: string \<Rightarrow> cell. r ''logId'' \<noteq> Null"
  let ?mask = "map ?P (rows joined)"
  let ?c = "select_rows ?mask joined"
  let ?i = "select_rows (map Not ?mask) joined"
  have j: "join_and_save_combined_data merge data_frames =
       [(''Merged.csv'', ?c), (''Registros_Incompletos.csv'', ?i)]"
    by (simp add: join_and_save_combined_data_def assms Let_def)
  have rc: "rows ?c = filter ?P (rows joined)" by (rule select_rows_filter)
  have ri: "rows ?i = filter (\<lambda>r. r ''logId'' = Null) (rows joined)"
    using select_rows_filter_not[of ?P joined] by simp
  have len: "length (rows ?c) + length (rows ?i) = length (rows joined)"
    unfolding rc ri using sum_length_filter_compl[of ?P "rows joined"] by simp
  have ms: "mset (rows ?c) + mset (rows ?i) = mset (rows joined)"
    unfolding rc ri using multiset_partition[of "mset (rows joined)" ?P] by simp
  have ex: "\<forall>r \<in> set (rows joined). (r \<in> set (rows ?c)) \<noteq> (r \<in> set (rows ?i))"
    unfolding rc ri by auto
  from j combined_table_logId[OF assms] rc ri len ms ex show ?thesis by blast
qed

lemma example_join: "combined_table outer_join [sleep_table, steps_table, no_table] \<noteq> None"
   "length (rows (the (combined_table outer_join [sleep_table, steps_table, no_table]))) = 3"
  "map (\<lambda>r. r ''logId'') (rows (the (combined_table outer_join [sleep_table, steps_table, no_table]))) = [NumCell 41, NumCell 42, Null]"
  by (simp_all add: combined_table_def empty_df_def sleep_table_def steps_table_def no_table_def
      reduce_def outer_join_def same_keys_def join_rows_def Let_def)

theorem partition_exhaustive_disjoint_witness:
  "\<exists>complete incomplete.
     join_and_save_combined_data outer_join [sleep_table, steps_table, no_table] =
       [(''Merged.csv'', complete), (''Registros_Incompletos.csv'', incomplete)] \<and>
     length (rows complete) = 2 \<and> length (rows incomplete) = 1 \<and>
     length (rows complete) + length (rows incomplete) = 3"
proof -
  let ?frames = "[sleep_table, steps_table, no_table]"
  let ?J = "the (combined_table outer_join ?frames)"
  have s: "combined_table outer_join ?frames = Some ?J" using example_join(1) by simp
  have f: "filter (\<lambda>r. r ''logId'' \<noteq> Null) xs = map snd (filter (\<lambda>p. fst p \<noteq> Null) (zip (map (\<lambda>r. r ''logId'') xs) xs))"
    for xs :: "(string \<Rightarrow> cell) list" by (induction xs) simp_all
  have lc: "length (filter (\<lambda>r. r ''logId'' \<noteq> Null) xs) = length (filter (\<lambda>c. c \<noteq> Null) (map (\<lambda>r. r ''logId'') xs))"
    for xs :: "(string \<Rightarrow> cell) list" by (induction xs) simp_all
  have li: "length (filter (\<lambda>r. r ''logId'' = Null) xs) = length (filter (\<lambda>c. c = Null) (map (\<lambda>r. r ''logId'') xs))"
    for xs :: "(string \<Rightarrow> cell) list" by (induction xs) simp_all
  from partition_exhaustive_disjoint[OF s] obtain complete incomplete where
    j: "join_and_save_combined_data outer_join ?frames =
       [(''Merged.csv'', complete), (''Registros_Incompletos.csv'', incomplete)]" and
    c: "rows complete = filter (\<lambda>r. r ''logId'' \<noteq> Null) (rows ?J)" and
    i: "rows incomplete = filter (\<lambda>r. r ''logId'' = Null) (rows ?J)" and
    l: "length (rows complete) + length (rows incomplete) = length (rows ?J)" by blast
  have "length (rows complete) = 2" unfolding c lc example_join(3) by simp
  moreover have "length (rows incomplete) = 1" unfolding i li example_join(3) by simp
  ultimately show ?thesis using j by simp
qed

end
